theory Spec2Isabelle
  imports Main "HOL-Library.AList"
begin

section \<open>JavaScript values\<close>

text \<open>
  The toolkit is written in TypeScript and moves untyped JavaScript values (\<open>any\<close>)
  between plugins, the schema and the table. A value is \<open>undefined\<close>, \<open>null\<close>, a
  boolean, a number, a string, an array, an object or a function. Numbers are restricted
  to integers. An object is its list of own enumerable properties in insertion order;
  assigning to a property that exists keeps its place, assigning to a new one appends it.
  (JavaScript lists integer-like keys first; the model does not, and no property below
  depends on where such a key stands.) What an object inherits from \<open>Object.prototype\<close>
  is given in the subsection on inherited members. The only functions among the values
  are built-in ones; a function is known by its name.
\<close>

datatype jv = JUndefined | JNull | JBool bool | JNum int | JStr string
  | JArr "jv list" | JObj "(string \<times> jv) list" | JFun string

text \<open>
  The source throws plain \<open>Error\<close> objects that differ only by their message. Each
  throw site is one constructor carrying the message, named by the error kind the
  specification gives to that site. \<open>TypeError\<close> is what the JavaScript engine throws when a
  property of \<open>undefined\<close> or \<open>null\<close> is read or when \<open>Buffer.from\<close> is given
  \<open>undefined\<close>; \<open>ValidationFailed\<close> is what a schema throws; \<open>TransportFailure\<close> is what
  the table client throws.
\<close>

datatype error =
    NotFound string
  | UnsupportedReverseMapping string
  | NotImplemented string
  | InvalidExpression string
  | TypeError string
  | ValidationFailed string
  | TransportFailure string

subsection \<open>Numbers and values as text\<close>

definition digit_char :: "nat \<Rightarrow> char" where
  "digit_char d = ''0123456789'' ! d"

fun show_nat :: "nat \<Rightarrow> string" where
  "show_nat n = (if n < 10 then [digit_char n] else show_nat (n div 10) @ [digit_char (n mod 10)])"

declare show_nat.simps [simp del]

definition show_int :: "int \<Rightarrow> string" where
  "show_int i = (if i < 0 then CHR ''-'' # show_nat (nat (- i)) else show_nat (nat i))"

fun join :: "string \<Rightarrow> string list \<Rightarrow> string" where
  "join sep [] = []"
| "join sep [x] = x"
| "join sep (x # y # ys) = x @ sep @ join sep (y # ys)"

text \<open>What a template literal \<open>`${v}`\<close> renders for a value.\<close>

fun to_string :: "jv \<Rightarrow> string" where
  "to_string JUndefined = ''undefined''"
| "to_string JNull = ''null''"
| "to_string (JBool b) = (if b then ''true'' else ''false'')"
| "to_string (JNum n) = show_int n"
| "to_string (JStr s) = s"
| "to_string (JArr xs) =
     join '','' (map (\<lambda>x. if x = JUndefined \<or> x = JNull then [] else to_string x) xs)"
| "to_string (JObj ps) = ''[object Object]''"
| "to_string (JFun f) = ''function '' @ f @ ''() { [native code] }''"

text \<open>\<open>!v\<close> is \<open>\<not> truthy v\<close>.\<close>

fun truthy :: "jv \<Rightarrow> bool" where
  "truthy JUndefined = False"
| "truthy JNull = False"
| "truthy (JBool b) = b"
| "truthy (JNum n) = (n \<noteq> 0)"
| "truthy (JStr s) = (s \<noteq> [])"
| "truthy (JArr xs) = True"
| "truthy (JObj ps) = True"
| "truthy (JFun f) = True"

subsection \<open>Properties, spread and rest\<close>

definition index_props :: "jv list \<Rightarrow> (string \<times> jv) list" where
  "index_props xs = zip (map show_nat [0..<length xs]) xs"

text \<open>
  The own enumerable properties of a value, which is what \<open>{...v}\<close> and
  \<open>const {pk, sk, ...data} = v\<close> copy: the properties of an object, the indexed elements
  of an array, the indexed characters of a string, and nothing for the other primitives.
\<close>

fun own_props :: "jv \<Rightarrow> (string \<times> jv) list" where
  "own_props (JObj ps) = ps"
| "own_props (JArr xs) = index_props xs"
| "own_props (JStr s) = index_props (map (\<lambda>c. JStr [c]) s)"
| "own_props v = []"

definition assign :: "(string \<times> jv) list \<Rightarrow> (string \<times> jv) list \<Rightarrow> (string \<times> jv) list" where
  "assign acc ps = fold (\<lambda>(k, v). AList.update k v) ps acc"

text \<open>The object literal \<open>{...v1, ...v2, ...}\<close>.\<close>

definition spread :: "jv list \<Rightarrow> jv" where
  "spread vs = JObj (fold (\<lambda>v acc. assign acc (own_props v)) vs [])"

text \<open>
  The property read \<open>v.k\<close> for a name \<open>k\<close> that no prototype defines; the source reads
  \<open>id\<close>, \<open>tenantId\<close>, \<open>parentId\<close> and \<open>deleted\<close> this way.
\<close>

definition get_prop :: "jv \<Rightarrow> string \<Rightarrow> error + jv" where
  "get_prop v k =
     (case v of
        JUndefined \<Rightarrow> Inl (TypeError (''Cannot read properties of undefined (reading '' @ k @ '')''))
      | JNull \<Rightarrow> Inl (TypeError (''Cannot read properties of null (reading '' @ k @ '')''))
      | _ \<Rightarrow> Inr (case map_of (own_props v) k of Some x \<Rightarrow> x | None \<Rightarrow> JUndefined))"

subsection \<open>Inherited members\<close>

text \<open>
  What an object made by an object literal inherits from \<open>Object.prototype\<close>: eleven
  methods, of which \<open>constructor\<close> is the function \<open>Object\<close>, and the accessor
  \<open>__proto__\<close>. The getter of \<open>__proto__\<close> returns \<open>Object.prototype\<close> itself, an object
  without own enumerable properties; its setter ignores a value that is not an object and,
  given \<open>Object.prototype\<close>, leaves the object as it is.
\<close>

definition object_prototype_methods :: "(string \<times> jv) list" where
  "object_prototype_methods =
     [(''constructor'', JFun ''Object''),
      (''__defineGetter__'', JFun ''__defineGetter__''),
      (''__defineSetter__'', JFun ''__defineSetter__''),
      (''hasOwnProperty'', JFun ''hasOwnProperty''),
      (''__lookupGetter__'', JFun ''__lookupGetter__''),
      (''__lookupSetter__'', JFun ''__lookupSetter__''),
      (''isPrototypeOf'', JFun ''isPrototypeOf''),
      (''propertyIsEnumerable'', JFun ''propertyIsEnumerable''),
      (''toString'', JFun ''toString''),
      (''valueOf'', JFun ''valueOf''),
      (''toLocaleString'', JFun ''toLocaleString'')]"

text \<open>
  \<open>k in obj\<close>, \<open>obj[k]\<close> and \<open>obj[k] = v\<close> for an object \<open>obj\<close> made by an object literal,
  given by its own properties \<open>ps\<close>. An assignment overwrites an own property, shadows an
  inherited method by a new own property, and goes to the setter when the name is an
  inherited \<open>__proto__\<close>. The values that the source assigns there are strings and
  \<open>Object.prototype\<close>, so the setter changes nothing.
\<close>

definition has_property :: "string \<Rightarrow> (string \<times> jv) list \<Rightarrow> bool" where
  "has_property k ps =
     (k \<in> fst ` set ps \<or> k \<in> fst ` set object_prototype_methods \<or> k = ''__proto__'')"

definition read_property :: "(string \<times> jv) list \<Rightarrow> string \<Rightarrow> jv" where
  "read_property ps k =
     (case map_of ps k of
        Some x \<Rightarrow> x
      | None \<Rightarrow>
          (case map_of object_prototype_methods k of
             Some f \<Rightarrow> f
           | None \<Rightarrow> if k = ''__proto__'' then JObj [] else JUndefined))"

definition write_property :: "string \<Rightarrow> jv \<Rightarrow> (string \<times> jv) list \<Rightarrow> (string \<times> jv) list" where
  "write_property k v ps =
     (if k = ''__proto__'' \<and> k \<notin> fst ` set ps then ps else AList.update k v ps)"

section \<open>Key transformers\<close>

record dodoKey =
  pk :: string
  sk :: string

definition key_obj :: "dodoKey \<Rightarrow> jv" where
  "key_obj key = JObj [(''pk'', JStr (pk key)), (''sk'', JStr (sk key))]"

record keyTransformer =
  toKey :: "jv \<Rightarrow> error + dodoKey"
  fromId :: "string \<Rightarrow> error + dodoKey"

definition single :: "string \<Rightarrow> keyTransformer" where
  "single type =
     \<lparr> toKey = (\<lambda>item.
         case get_prop item ''id'' of Inl e \<Rightarrow> Inl e
         | Inr i \<Rightarrow> Inr \<lparr> pk = type @ ''#'' @ to_string i, sk = type @ ''#META'' \<rparr>),
       fromId = (\<lambda>ident. Inr \<lparr> pk = type @ ''#'' @ ident, sk = type @ ''#META'' \<rparr>) \<rparr>"

definition tenant :: "string \<Rightarrow> keyTransformer" where
  "tenant type =
     \<lparr> toKey = (\<lambda>item.
         case get_prop item ''tenantId'' of Inl e \<Rightarrow> Inl e
         | Inr t \<Rightarrow>
             (case get_prop item ''id'' of Inl e \<Rightarrow> Inl e
              | Inr i \<Rightarrow> Inr \<lparr> pk = ''TENANT#'' @ to_string t, sk = type @ ''#'' @ to_string i \<rparr>)),
       fromId = (\<lambda>ident. Inl (UnsupportedReverseMapping ''Tenant transformer requires tenantId'')) \<rparr>"

definition hierarchy :: "string \<Rightarrow> keyTransformer" where
  "hierarchy type =
     \<lparr> toKey = (\<lambda>item.
         case get_prop item ''parentId'' of Inl e \<Rightarrow> Inl e
         | Inr p \<Rightarrow>
             (case get_prop item ''id'' of Inl e \<Rightarrow> Inl e
              | Inr i \<Rightarrow> Inr \<lparr> pk = type @ ''#'' @ to_string p, sk = type @ ''#'' @ to_string i \<rparr>)),
       fromId = (\<lambda>ident. Inl (UnsupportedReverseMapping ''Hierarchy transformer requires parentId'')) \<rparr>"

text \<open>
  \<open>custom(toKey, fromId?)\<close>: the reverse function is optional, and \<open>fromId ?? ...\<close>
  puts a function that throws in its place when it is absent.
\<close>

definition custom ::
  "(jv \<Rightarrow> error + dodoKey) \<Rightarrow> (string \<Rightarrow> error + dodoKey) option \<Rightarrow> keyTransformer" where
  "custom toKey' fromId' =
     \<lparr> toKey = toKey',
       fromId = (case fromId' of
                   Some f \<Rightarrow> f
                 | None \<Rightarrow> (\<lambda>ident. Inl (NotImplemented ''fromId not implemented''))) \<rparr>"

section \<open>The table client\<close>

text \<open>
  Modelled from the spec: the transport collaborator (section 6), the AWS document
  client behind \<open>client.send\<close>, which is not part of the repository. It accepts get, put
  and delete requests against a named table keyed by the two attributes \<open>pk\<close> and \<open>sk\<close> and
  returns raw attribute maps. The state of the client is the content of the tables
  together with the list of the commands sent so far, oldest first. A put whose item is
  not an object with string attributes \<open>pk\<close> and \<open>sk\<close> is rejected. The client is
  configured with \<open>removeUndefinedValues\<close>, so \<open>undefined\<close> members are dropped from what a
  put stores. Failures of the network are not modelled.
\<close>

datatype command =
    GetCommand string dodoKey
  | PutCommand string jv
  | DeleteCommand string dodoKey

record client =
  content :: "string \<Rightarrow> dodoKey \<Rightarrow> jv option"
  sent :: "command list"

fun removeUndefinedValues :: "jv \<Rightarrow> jv" where
  "removeUndefinedValues (JArr xs) =
     JArr (map removeUndefinedValues (filter (\<lambda>x. x \<noteq> JUndefined) xs))"
| "removeUndefinedValues (JObj ps) =
     JObj (map (\<lambda>(k, v). (k, removeUndefinedValues v)) (filter (\<lambda>(k, v). v \<noteq> JUndefined) ps))"
| "removeUndefinedValues v = v"

definition item_key :: "jv \<Rightarrow> dodoKey option" where
  "item_key item =
     (case item of
        JObj ps \<Rightarrow>
          (case (map_of ps ''pk'', map_of ps ''sk'') of
             (Some (JStr p), Some (JStr s)) \<Rightarrow> Some \<lparr> pk = p, sk = s \<rparr>
           | _ \<Rightarrow> None)
      | _ \<Rightarrow> None)"

definition send_get :: "string \<Rightarrow> dodoKey \<Rightarrow> client \<Rightarrow> jv option \<times> client" where
  "send_get tbl key c = (content c tbl key, c\<lparr> sent := sent c @ [GetCommand tbl key] \<rparr>)"

definition send_put :: "string \<Rightarrow> jv \<Rightarrow> client \<Rightarrow> (error + unit) \<times> client" where
  "send_put tbl item c =
     (let c' = c\<lparr> sent := sent c @ [PutCommand tbl item] \<rparr> in
      case item_key item of
        None \<Rightarrow> (Inl (TransportFailure ''ValidationException''), c')
      | Some key \<Rightarrow>
          (Inr (), c'\<lparr> content := (content c')(tbl := (content c' tbl)(key \<mapsto> removeUndefinedValues item)) \<rparr>))"

definition send_delete :: "string \<Rightarrow> dodoKey \<Rightarrow> client \<Rightarrow> unit \<times> client" where
  "send_delete tbl key c =
     ((), c\<lparr> content := (content c)(tbl := (content c tbl)(key := None)),
             sent := sent c @ [DeleteCommand tbl key] \<rparr>)"

section \<open>The store facade\<close>

text \<open>
  A handler is a caller-supplied function; it returns a value or throws. The facade awaits
  every handler before it goes on, so a pipeline is a sequential composition.
\<close>

type_synonym handler = "jv \<Rightarrow> error + jv"

record dodoPlugin =
  name :: string
  onBeforePut :: "handler option"
  onAfterGet :: "handler option"
  onBeforeQuery :: "handler option"
  onAfterQuery :: "handler option"
  onBeforeDelete :: "handler option"

datatype dodoPhase = Name | OnBeforePut | OnAfterGet | OnBeforeQuery | OnAfterQuery | OnBeforeDelete

text \<open>\<open>plugin[phase]\<close> when it is a function; the \<open>name\<close> of a plugin is a string.\<close>

fun dodo_handler :: "dodoPlugin \<Rightarrow> dodoPhase \<Rightarrow> handler option" where
  "dodo_handler plugin Name = None"
| "dodo_handler plugin OnBeforePut = onBeforePut plugin"
| "dodo_handler plugin OnAfterGet = onAfterGet plugin"
| "dodo_handler plugin OnBeforeQuery = onBeforeQuery plugin"
| "dodo_handler plugin OnAfterQuery = onAfterQuery plugin"
| "dodo_handler plugin OnBeforeDelete = onBeforeDelete plugin"

record dodoConfig =
  table :: string
  plugins :: "dodoPlugin list"

text \<open>
  \<open>applyPlugins\<close> of \<open>createDodo\<close>: the loop over \<open>config.plugins\<close> with the running value
  \<open>result\<close>, which every handler's return value replaces.
\<close>

fun dodo_applyPlugins :: "dodoPlugin list \<Rightarrow> dodoPhase \<Rightarrow> jv \<Rightarrow> error + jv" where
  "dodo_applyPlugins [] phase result = Inr result"
| "dodo_applyPlugins (plugin # rest) phase result =
     (case dodo_handler plugin phase of
        None \<Rightarrow> dodo_applyPlugins rest phase result
      | Some fn \<Rightarrow>
          (case fn result of
             Inl e \<Rightarrow> Inl e
           | Inr r \<Rightarrow> dodo_applyPlugins rest phase r))"

definition dodo_get :: "dodoConfig \<Rightarrow> dodoKey \<Rightarrow> client \<Rightarrow> (error + jv) \<times> client" where
  "dodo_get config key c =
     (case send_get (table config) key c of
        (None, c') \<Rightarrow> (Inr JNull, c')
      | (Some item, c') \<Rightarrow>
          (if \<not> truthy item then (Inr JNull, c')
           else (dodo_applyPlugins (plugins config) OnAfterGet item, c')))"

definition dodo_put :: "dodoConfig \<Rightarrow> jv \<Rightarrow> client \<Rightarrow> (error + unit) \<times> client" where
  "dodo_put config item c =
     (case dodo_applyPlugins (plugins config) OnBeforePut item of
        Inl e \<Rightarrow> (Inl e, c)
      | Inr transformed \<Rightarrow> send_put (table config) transformed c)"

definition dodo_delete :: "dodoConfig \<Rightarrow> dodoKey \<Rightarrow> client \<Rightarrow> (error + unit) \<times> client" where
  "dodo_delete config key c = (case send_delete (table config) key c of (u, c') \<Rightarrow> (Inr u, c'))"

definition dodo_update ::
  "dodoConfig \<Rightarrow> dodoKey \<Rightarrow> jv \<Rightarrow> client \<Rightarrow> (error + unit) \<times> client" where
  "dodo_update config key updates c =
     (case dodo_get config key c of
        (Inl e, c') \<Rightarrow> (Inl e, c')
      | (Inr existing, c') \<Rightarrow>
          (if \<not> truthy existing
           then (Inl (NotFound (''Item not found: '' @ pk key @ ''/'' @ sk key)), c')
           else dodo_put config (spread [existing, updates, key_obj key]) c'))"

section \<open>Entities\<close>

text \<open>
  An entity handler receives the running value first and then the remaining arguments of
  the pipeline call (\<open>fn(value, ...args.slice(1))\<close>).
\<close>

type_synonym entityHandler = "jv list \<Rightarrow> error + jv"

record entityPlugin =
  name :: "string option"
  beforeCreate :: "entityHandler option"
  afterCreate :: "entityHandler option"
  beforeGet :: "entityHandler option"
  afterGet :: "entityHandler option"
  beforeUpdate :: "entityHandler option"
  afterUpdate :: "entityHandler option"
  beforeDelete :: "entityHandler option"
  afterDelete :: "entityHandler option"
  beforeQuery :: "entityHandler option"
  afterQuery :: "entityHandler option"

datatype entityPhase = EName | BeforeCreate | AfterCreate | BeforeGet | AfterGet | BeforeUpdate
  | AfterUpdate | BeforeDelete | AfterDelete | BeforeQuery | AfterQuery

fun entity_handler :: "entityPlugin \<Rightarrow> entityPhase \<Rightarrow> entityHandler option" where
  "entity_handler plugin EName = None"
| "entity_handler plugin BeforeCreate = beforeCreate plugin"
| "entity_handler plugin AfterCreate = afterCreate plugin"
| "entity_handler plugin BeforeGet = beforeGet plugin"
| "entity_handler plugin AfterGet = afterGet plugin"
| "entity_handler plugin BeforeUpdate = beforeUpdate plugin"
| "entity_handler plugin AfterUpdate = afterUpdate plugin"
| "entity_handler plugin BeforeDelete = beforeDelete plugin"
| "entity_handler plugin AfterDelete = afterDelete plugin"
| "entity_handler plugin BeforeQuery = beforeQuery plugin"
| "entity_handler plugin AfterQuery = afterQuery plugin"

text \<open>\<open>a ?? b\<close>: \<open>b\<close> when \<open>a\<close> is \<open>undefined\<close> or \<open>null\<close>, and \<open>a\<close> otherwise.\<close>

definition nullish :: "jv \<Rightarrow> jv \<Rightarrow> jv" where
  "nullish a b = (if a = JUndefined \<or> a = JNull then b else a)"

text \<open>
  The loop of \<open>applyPlugins\<close> of \<open>createEntity\<close>, with the running \<open>value\<close> and the
  remaining arguments \<open>args.slice(1)\<close>.
\<close>

fun entity_applyLoop ::
  "entityPlugin list \<Rightarrow> entityPhase \<Rightarrow> jv \<Rightarrow> jv list \<Rightarrow> error + jv" where
  "entity_applyLoop [] phase v extra = Inr v"
| "entity_applyLoop (plugin # rest) phase v extra =
     (case entity_handler plugin phase of
        None \<Rightarrow> entity_applyLoop rest phase v extra
      | Some fn \<Rightarrow>
          (case fn (v # extra) of
             Inl e \<Rightarrow> Inl e
           | Inr transformed \<Rightarrow> entity_applyLoop rest phase (nullish transformed v) extra))"

text \<open>\<open>applyPlugins(phase, ...args)\<close>: the running value starts as \<open>args[0]\<close>.\<close>

definition entity_applyPlugins ::
  "entityPlugin list \<Rightarrow> entityPhase \<Rightarrow> jv list \<Rightarrow> error + jv" where
  "entity_applyPlugins ps phase args =
     entity_applyLoop ps phase (case args of [] \<Rightarrow> JUndefined | a # _ \<Rightarrow> a) (tl args)"

text \<open>
  \<open>schema\<close> is the validation collaborator: \<open>schema.parse\<close> returns the validated value or
  throws.
\<close>

record entityConfig =
  name :: string
  schema :: "jv \<Rightarrow> error + jv"
  keys :: keyTransformer
  plugins :: "entityPlugin list"

text \<open>\<open>const { pk, sk, ...data } = item\<close>.\<close>

definition rest_data :: "jv \<Rightarrow> jv" where
  "rest_data item = JObj (filter (\<lambda>(k, v). k \<noteq> ''pk'' \<and> k \<noteq> ''sk'') (own_props item))"

definition entity_create ::
  "dodoConfig \<Rightarrow> entityConfig \<Rightarrow> jv \<Rightarrow> client \<Rightarrow> (error + jv) \<times> client" where
  "entity_create dodo config input c =
     (case schema config input of
        Inl e \<Rightarrow> (Inl e, c)
      | Inr validated \<Rightarrow>
          (case entity_applyPlugins (entityConfig.plugins config) BeforeCreate [validated] of
             Inl e \<Rightarrow> (Inl e, c)
           | Inr transformed \<Rightarrow>
               (case toKey (keys config) transformed of
                  Inl e \<Rightarrow> (Inl e, c)
                | Inr key \<Rightarrow>
                    (case dodo_put dodo (spread [transformed, key_obj key]) c of
                       (Inl e, c') \<Rightarrow> (Inl e, c')
                     | (Inr u, c') \<Rightarrow> (Inr transformed, c')))))"

definition entity_get ::
  "dodoConfig \<Rightarrow> entityConfig \<Rightarrow> string \<Rightarrow> client \<Rightarrow> (error + jv) \<times> client" where
  "entity_get dodo config ident c =
     (case fromId (keys config) ident of
        Inl e \<Rightarrow> (Inl e, c)
      | Inr key \<Rightarrow>
          (case dodo_get dodo key c of
             (Inl e, c') \<Rightarrow> (Inl e, c')
           | (Inr item, c') \<Rightarrow>
               (if \<not> truthy item then (Inr JNull, c')
                else
                  (case schema config (rest_data item) of
                     Inl e \<Rightarrow> (Inl e, c')
                   | Inr validated \<Rightarrow>
                       (case entity_applyPlugins (entityConfig.plugins config) AfterGet [validated] of
                          Inl e \<Rightarrow> (Inl e, c')
                        | Inr result \<Rightarrow>
                            (Inr (if result \<noteq> JUndefined then result else JNull), c'))))))"

definition entity_update ::
  "dodoConfig \<Rightarrow> entityConfig \<Rightarrow> string \<Rightarrow> jv \<Rightarrow> client \<Rightarrow> (error + jv) \<times> client" where
  "entity_update dodo config ident updates c =
     (case entity_get dodo config ident c of
        (Inl e, c') \<Rightarrow> (Inl e, c')
      | (Inr current, c') \<Rightarrow>
          (if \<not> truthy current
           then (Inl (NotFound (entityConfig.name config @ '' '' @ ident @ '' not found'')), c')
           else
             (case entity_applyPlugins (entityConfig.plugins config) BeforeUpdate [JStr ident, updates] of
                Inl e \<Rightarrow> (Inl e, c')
              | Inr transformed \<Rightarrow>
                  (case schema config (spread [current, transformed]) of
                     Inl e \<Rightarrow> (Inl e, c')
                   | Inr validated \<Rightarrow>
                       (case fromId (keys config) ident of
                          Inl e \<Rightarrow> (Inl e, c')
                        | Inr key \<Rightarrow>
                            (case dodo_put dodo (spread [validated, key_obj key]) c' of
                               (Inl e, c'') \<Rightarrow> (Inl e, c'')
                             | (Inr u, c'') \<Rightarrow> (Inr validated, c'')))))))"

definition deleteEntity ::
  "dodoConfig \<Rightarrow> entityConfig \<Rightarrow> string \<Rightarrow> client \<Rightarrow> (error + unit) \<times> client" where
  "deleteEntity dodo config ident c =
     (case fromId (keys config) ident of
        Inl e \<Rightarrow> (Inl e, c)
      | Inr key \<Rightarrow> dodo_delete dodo key c)"

section \<open>Built-in functions of the platform\<close>

text \<open>
  \<open>JSON.stringify\<close>, \<open>JSON.parse\<close> and \<open>Buffer\<close> are functions of the platform that
  \<open>encrypt\<close> and \<open>decrypt\<close> call; they are not code of the repository. They are written
  out here on the values of this model, after the ECMAScript definition of the \<open>JSON\<close>
  object and the base64 alphabet of RFC 4648. A string stands for the bytes of its UTF-8
  encoding, so \<open>Buffer.from(s)\<close> and \<open>toString()\<close> leave it as it is. The parser reads
  JSON texts without insignificant whitespace, with integer numbers and with escapes of
  ASCII characters; other texts have no value in this model and count as a syntax error.
\<close>

subsection \<open>Base64\<close>

definition b64_chars :: string where
  "b64_chars = ''ABCDEFGHIJKLMNOPQRSTUVWXYZabcdefghijklmnopqrstuvwxyz0123456789+/''"

definition b64_char :: "nat \<Rightarrow> char" where
  "b64_char i = b64_chars ! i"

fun b64_encode :: "nat list \<Rightarrow> string" where
  "b64_encode (a # b # c # rest) =
     [b64_char (a div 4), b64_char ((a mod 4) * 16 + b div 16),
      b64_char ((b mod 16) * 4 + c div 64), b64_char (c mod 64)] @ b64_encode rest"
| "b64_encode [a, b] =
     [b64_char (a div 4), b64_char ((a mod 4) * 16 + b div 16), b64_char ((b mod 16) * 4), CHR ''='']"
| "b64_encode [a] = [b64_char (a div 4), b64_char ((a mod 4) * 16), CHR ''='', CHR ''='']"
| "b64_encode [] = []"

fun index_of :: "'a \<Rightarrow> 'a list \<Rightarrow> nat option" where
  "index_of x [] = None"
| "index_of x (y # ys) = (if x = y then Some 0 else map_option Suc (index_of x ys))"

definition b64_index :: "char \<Rightarrow> nat option" where
  "b64_index c =
     (if c = CHR ''-'' then Some 62 else if c = CHR ''_'' then Some 63 else index_of c b64_chars)"

fun b64_bytes :: "nat list \<Rightarrow> nat list" where
  "b64_bytes (p # q # r # s # rest) =
     [p * 4 + q div 16, (q mod 16) * 16 + r div 4, (r mod 4) * 64 + s] @ b64_bytes rest"
| "b64_bytes [p, q, r] = [p * 4 + q div 16, (q mod 16) * 16 + r div 4]"
| "b64_bytes [p, q] = [p * 4 + q div 16]"
| "b64_bytes sextets = []"

definition b64_decode :: "string \<Rightarrow> nat list" where
  "b64_decode s = b64_bytes (List.map_filter b64_index (takeWhile (\<lambda>c. c \<noteq> CHR ''='') s))"

subsection \<open>JSON texts\<close>

text \<open>\<open>quote\<close> is the quoting of a string by \<open>JSON.stringify\<close>.\<close>

definition hex_digit :: "nat \<Rightarrow> char" where
  "hex_digit d = ''0123456789abcdef'' ! d"

definition quote_char :: "char \<Rightarrow> string" where
  "quote_char c =
     (if c = CHR 0x22 then [CHR 0x5C, CHR 0x22]
      else if c = CHR 0x5C then [CHR 0x5C, CHR 0x5C]
      else if c = CHR 0x08 then [CHR 0x5C, CHR ''b'']
      else if c = CHR 0x0C then [CHR 0x5C, CHR ''f'']
      else if c = CHR 0x0A then [CHR 0x5C, CHR ''n'']
      else if c = CHR 0x0D then [CHR 0x5C, CHR ''r'']
      else if c = CHR 0x09 then [CHR 0x5C, CHR ''t'']
      else if (of_char c :: nat) < 32 then
        [CHR 0x5C, CHR ''u'', CHR ''0'', CHR ''0'',
         hex_digit (of_char c div 16), hex_digit (of_char c mod 16)]
      else [c])"

definition quote :: "string \<Rightarrow> string" where
  "quote s = CHR 0x22 # concat (map quote_char s) @ [CHR 0x22]"

fun json_stringify :: "jv \<Rightarrow> string option" where
  "json_stringify JUndefined = None"
| "json_stringify (JFun f) = None"
| "json_stringify JNull = Some ''null''"
| "json_stringify (JBool b) = Some (if b then ''true'' else ''false'')"
| "json_stringify (JNum n) = Some (show_int n)"
| "json_stringify (JStr s) = Some (quote s)"
| "json_stringify (JArr xs) =
     Some (''['' @ join '','' (map (\<lambda>x. case json_stringify x of None \<Rightarrow> ''null'' | Some t \<Rightarrow> t) xs)
           @ '']'')"
| "json_stringify (JObj ps) =
     Some (''{'' @ join '','' (concat (map (\<lambda>(k, v). case json_stringify v of
                                                     None \<Rightarrow> []
                                                   | Some t \<Rightarrow> [quote k @ '':'' @ t]) ps))
           @ ''}'')"

text \<open>The parser. Numbers first, then strings, then values with their arrays and objects.\<close>

definition is_digit :: "char \<Rightarrow> bool" where
  "is_digit c = (c \<in> set ''0123456789'')"

definition digit_val :: "char \<Rightarrow> nat" where
  "digit_val c = of_char c - 48"

definition nat_of_digits :: "string \<Rightarrow> nat" where
  "nat_of_digits ds = foldl (\<lambda>n c. 10 * n + digit_val c) 0 ds"

definition parse_number :: "string \<Rightarrow> (jv \<times> string) option" where
  "parse_number s =
     (let negative = (s \<noteq> [] \<and> hd s = CHR ''-'');
          s1 = (if negative then tl s else s);
          ds = takeWhile is_digit s1;
          rest = dropWhile is_digit s1
      in if ds = [] \<or> (length ds > 1 \<and> hd ds = CHR ''0'')
            \<or> (rest \<noteq> [] \<and> hd rest \<in> set ''.eE'')
         then None
         else Some (JNum (if negative then - int (nat_of_digits ds) else int (nat_of_digits ds)), rest))"

definition unescape :: "char \<Rightarrow> char option" where
  "unescape e =
     (if e = CHR 0x22 then Some (CHR 0x22)
      else if e = CHR 0x5C then Some (CHR 0x5C)
      else if e = CHR ''/'' then Some (CHR ''/'')
      else if e = CHR ''b'' then Some (CHR 0x08)
      else if e = CHR ''f'' then Some (CHR 0x0C)
      else if e = CHR ''n'' then Some (CHR 0x0A)
      else if e = CHR ''r'' then Some (CHR 0x0D)
      else if e = CHR ''t'' then Some (CHR 0x09)
      else None)"

definition hex_val :: "char \<Rightarrow> nat option" where
  "hex_val c =
     (case index_of c ''0123456789abcdef'' of
        Some d \<Rightarrow> Some d
      | None \<Rightarrow> map_option (\<lambda>d. d + 10) (index_of c ''ABCDEF''))"

definition unhex4 :: "string \<Rightarrow> nat option" where
  "unhex4 s =
     (case map hex_val s of
        [Some a, Some b, Some c, Some d] \<Rightarrow> Some (((a * 16 + b) * 16 + c) * 16 + d)
      | _ \<Rightarrow> None)"

function parse_string :: "string \<Rightarrow> (string \<times> string) option" where
  "parse_string [] = None"
| "parse_string (c # cs) =
     (if c = CHR 0x22 then Some ([], cs)
      else if c = CHR 0x5C then
        (case cs of
           [] \<Rightarrow> None
         | e # r \<Rightarrow>
             if e = CHR ''u'' then
               (case unhex4 (take 4 r) of
                  None \<Rightarrow> None
                | Some code \<Rightarrow>
                    if code < 128 then
                      (case parse_string (drop 4 r) of
                         None \<Rightarrow> None
                       | Some (t, r') \<Rightarrow> Some (char_of code # t, r'))
                    else None)
             else
               (case unescape e of
                  None \<Rightarrow> None
                | Some ch \<Rightarrow>
                    (case parse_string r of
                       None \<Rightarrow> None
                     | Some (t, r') \<Rightarrow> Some (ch # t, r'))))
      else if (of_char c :: nat) < 32 then None
      else (case parse_string cs of None \<Rightarrow> None | Some (t, r') \<Rightarrow> Some (c # t, r')))"
  by pat_completeness auto
termination
  by (relation "measure length") auto

text \<open>
  The first argument of \<open>parse_value\<close> bounds the nesting and the number of elements
  still to be read; \<open>json_parse\<close> starts with more than the text can need, so the bound is
  never what makes it fail on a text that \<open>json_stringify\<close> wrote (lemma
  \<open>json_round_trip\<close>).
\<close>

fun parse_value :: "nat \<Rightarrow> string \<Rightarrow> (jv \<times> string) option"
  and parse_elements :: "nat \<Rightarrow> string \<Rightarrow> (jv list \<times> string) option"
  and parse_members :: "nat \<Rightarrow> string \<Rightarrow> ((string \<times> jv) list \<times> string) option" where
  "parse_value 0 s = None"
| "parse_value (Suc n) s =
     (case s of
        [] \<Rightarrow> None
      | c # cs \<Rightarrow>
          if c = CHR 0x22 then
            (case parse_string cs of None \<Rightarrow> None | Some (t, r) \<Rightarrow> Some (JStr t, r))
          else if c = CHR ''['' then
            (case cs of
               [] \<Rightarrow> None
             | d # ds \<Rightarrow>
                 if d = CHR '']'' then Some (JArr [], ds)
                 else (case parse_elements n cs of
                         None \<Rightarrow> None
                       | Some (xs, r) \<Rightarrow> Some (JArr xs, r)))
          else if c = CHR ''{'' then
            (case cs of
               [] \<Rightarrow> None
             | d # ds \<Rightarrow>
                 if d = CHR ''}'' then Some (JObj [], ds)
                 else (case parse_members n cs of
                         None \<Rightarrow> None
                       | Some (ps, r) \<Rightarrow> Some (JObj (assign [] ps), r)))
          else if take 4 s = ''null'' then Some (JNull, drop 4 s)
          else if take 4 s = ''true'' then Some (JBool True, drop 4 s)
          else if take 5 s = ''false'' then Some (JBool False, drop 5 s)
          else parse_number s)"
| "parse_elements 0 s = None"
| "parse_elements (Suc n) s =
     (case parse_value n s of
        None \<Rightarrow> None
      | Some (x, r) \<Rightarrow>
          (case r of
             [] \<Rightarrow> None
           | d # ds \<Rightarrow>
               if d = CHR '','' then
                 (case parse_elements n ds of
                    None \<Rightarrow> None
                  | Some (xs, r') \<Rightarrow> Some (x # xs, r'))
               else if d = CHR '']'' then Some ([x], ds)
               else None))"
| "parse_members 0 s = None"
| "parse_members (Suc n) s =
     (case s of
        [] \<Rightarrow> None
      | c # cs \<Rightarrow>
          if c \<noteq> CHR 0x22 then None
          else
            (case parse_string cs of
               None \<Rightarrow> None
             | Some (k, r) \<Rightarrow>
                 (case r of
                    [] \<Rightarrow> None
                  | d # ds \<Rightarrow>
                      if d \<noteq> CHR '':'' then None
                      else
                        (case parse_value n ds of
                           None \<Rightarrow> None
                         | Some (v, r1) \<Rightarrow>
                             (case r1 of
                                [] \<Rightarrow> None
                              | d1 # ds1 \<Rightarrow>
                                  if d1 = CHR '','' then
                                    (case parse_members n ds1 of
                                       None \<Rightarrow> None
                                     | Some (ps, r2) \<Rightarrow> Some ((k, v) # ps, r2))
                                  else if d1 = CHR ''}'' then Some ([(k, v)], ds1)
                                  else None)))))"

definition json_parse :: "string \<Rightarrow> jv option" where
  "json_parse s =
     (case parse_value (Suc (length s)) s of
        Some (v, []) \<Rightarrow> Some v
      | _ \<Rightarrow> None)"

text \<open>\<open>Buffer.from(array)\<close> reads each element as a byte.\<close>

fun to_uint8 :: "jv \<Rightarrow> nat" where
  "to_uint8 (JNum n) = nat (n mod 256)"
| "to_uint8 (JBool b) = (if b then 1 else 0)"
| "to_uint8 v = 0"

text \<open>
  \<open>to_base64 s\<close> is \<open>Buffer.from(s).toString("base64")\<close> for a string \<open>s\<close>, and
  \<open>from_base64 x\<close> is \<open>Buffer.from(x, "base64").toString()\<close>, which has no result when
  \<open>Buffer.from\<close> throws: it accepts a string or an array and rejects \<open>undefined\<close>,
  \<open>null\<close>, booleans, numbers, functions and objects that are not array-like.
\<close>

definition to_base64 :: "string \<Rightarrow> string" where
  "to_base64 s = b64_encode (map of_char s)"

definition from_base64 :: "jv \<Rightarrow> string option" where
  "from_base64 x =
     (case x of
        JStr s \<Rightarrow> Some (map char_of (b64_decode s))
      | JArr xs \<Rightarrow> Some (map char_of (map to_uint8 xs))
      | _ \<Rightarrow> None)"

section \<open>Built-in plugins\<close>

text \<open>\<open>args[n]\<close>, which is \<open>undefined\<close> past the end.\<close>

definition arg :: "nat \<Rightarrow> jv list \<Rightarrow> jv" where
  "arg n args = (if n < length args then args ! n else JUndefined)"

text \<open>\<open>typeof v === "object"\<close>.\<close>

fun typeof_object :: "jv \<Rightarrow> bool" where
  "typeof_object JNull = True"
| "typeof_object (JArr xs) = True"
| "typeof_object (JObj ps) = True"
| "typeof_object v = False"

text \<open>
  \<open>k in v\<close>, which throws when \<open>v\<close> is not an object. An array has its indices and
  \<open>length\<close> and inherits from \<open>Array.prototype\<close>; a function has \<open>length\<close> and \<open>name\<close> and
  inherits from \<open>Function.prototype\<close>, and the function \<open>Object\<close> has its static members
  besides; all of them inherit from \<open>Object.prototype\<close>. The names are those of
  ECMAScript 2024.
\<close>

definition array_member_names :: "string list" where
  "array_member_names =
     [''length'', ''at'', ''concat'', ''copyWithin'', ''fill'', ''find'', ''findIndex'',
      ''findLast'', ''findLastIndex'', ''lastIndexOf'', ''pop'', ''push'', ''reverse'',
      ''shift'', ''unshift'', ''slice'', ''sort'', ''splice'', ''includes'', ''indexOf'',
      ''join'', ''keys'', ''entries'', ''values'', ''forEach'', ''filter'', ''flat'',
      ''flatMap'', ''map'', ''every'', ''some'', ''reduce'', ''reduceRight'', ''toReversed'',
      ''toSorted'', ''toSpliced'', ''with'']"

definition function_member_names :: "string list" where
  "function_member_names =
     [''length'', ''name'', ''arguments'', ''caller'', ''apply'', ''bind'', ''call'']"

definition object_static_names :: "string list" where
  "object_static_names =
     [''prototype'', ''assign'', ''create'', ''defineProperties'', ''defineProperty'',
      ''entries'', ''freeze'', ''fromEntries'', ''getOwnPropertyDescriptor'',
      ''getOwnPropertyDescriptors'', ''getOwnPropertyNames'', ''getOwnPropertySymbols'',
      ''getPrototypeOf'', ''groupBy'', ''hasOwn'', ''is'', ''isExtensible'', ''isFrozen'',
      ''isSealed'', ''keys'', ''preventExtensions'', ''seal'', ''setPrototypeOf'', ''values'']"

definition in_op :: "string \<Rightarrow> jv \<Rightarrow> error + bool" where
  "in_op k v =
     (case v of
        JObj ps \<Rightarrow> Inr (has_property k ps)
      | JArr xs \<Rightarrow>
          Inr (k \<in> fst ` set (index_props xs) \<or> k \<in> set array_member_names \<or> has_property k [])
      | JFun f \<Rightarrow>
          Inr (k \<in> set function_member_names \<or> (f = ''Object'' \<and> k \<in> set object_static_names)
               \<or> has_property k [])
      | _ \<Rightarrow> Inl (TypeError (''Cannot use 'in' operator to search for '' @ k @ '' in '' @ to_string v)))"

text \<open>
  \<open>softDelete()\<close>. The plugin reads the clock (\<open>new Date().toISOString()\<close>) in
  \<open>beforeUpdate\<close>; the time it reads is the parameter \<open>now\<close>.
\<close>

definition softDelete :: "string \<Rightarrow> entityPlugin" where
  "softDelete now =
     \<lparr> entityPlugin.name = None, beforeCreate = None, afterCreate = None, beforeGet = None,
       afterGet = Some (\<lambda>args.
         let item = arg 0 args in
         if truthy item \<and> typeof_object item \<and> in_op ''deleted'' item = Inr True
            \<and> (case get_prop item ''deleted'' of Inr d \<Rightarrow> truthy d | Inl e \<Rightarrow> False)
         then Inr JNull
         else Inr item),
       beforeUpdate = Some (\<lambda>args.
         let updates = arg 1 args in
         case in_op ''deleted'' updates of
           Inl e \<Rightarrow> Inl e
         | Inr present \<Rightarrow>
             if present \<and> get_prop updates ''deleted'' = Inr (JBool True)
             then Inr (spread [updates, JObj [(''deletedAt'', JStr now)]])
             else Inr updates),
       afterUpdate = None, beforeDelete = None, afterDelete = None,
       beforeQuery = None, afterQuery = None \<rparr>"

text \<open>
  \<open>encrypt\<close> throws when \<open>JSON.stringify\<close> returns \<open>undefined\<close>, which \<open>Buffer.from\<close>
  rejects; \<open>decrypt\<close> catches every exception and returns its argument.
\<close>

definition encrypt :: "jv \<Rightarrow> error + string" where
  "encrypt v =
     (case json_stringify v of
        None \<Rightarrow> Inl (TypeError ''The first argument must be of type string or an instance of Buffer, ArrayBuffer, or Array or an Array-like Object. Received undefined'')
      | Some t \<Rightarrow> Inr (to_base64 t))"

definition decrypt :: "jv \<Rightarrow> jv" where
  "decrypt encrypted =
     (case from_base64 encrypted of
        None \<Rightarrow> encrypted
      | Some t \<Rightarrow> (case json_parse t of None \<Rightarrow> encrypted | Some v \<Rightarrow> v))"

text \<open>
  \<open>encryption(fields)\<close>. Both hooks copy the item (\<open>{ ...item }\<close>) and then run
  \<open>fields.forEach\<close> over the copy; \<open>encrypt_fields\<close> and \<open>decrypt_fields\<close> are those loops.
  The test \<open>field in encrypted\<close> also holds for a name that the copy only inherits.
\<close>

fun encrypt_fields :: "string list \<Rightarrow> (string \<times> jv) list \<Rightarrow> error + (string \<times> jv) list" where
  "encrypt_fields [] encrypted = Inr encrypted"
| "encrypt_fields (field # fields') encrypted =
     (if has_property field encrypted
      then (case encrypt (read_property encrypted field) of
              Inl e \<Rightarrow> Inl e
            | Inr s \<Rightarrow> encrypt_fields fields' (write_property field (JStr s) encrypted))
      else encrypt_fields fields' encrypted)"

fun decrypt_fields :: "string list \<Rightarrow> (string \<times> jv) list \<Rightarrow> (string \<times> jv) list" where
  "decrypt_fields [] decrypted = decrypted"
| "decrypt_fields (field # fields') decrypted =
     (if has_property field decrypted
      then decrypt_fields fields'
             (write_property field (decrypt (read_property decrypted field)) decrypted)
      else decrypt_fields fields' decrypted)"

definition encryption :: "string list \<Rightarrow> dodoPlugin" where
  "encryption fields' =
     \<lparr> dodoPlugin.name = ''encryption'',
       onBeforePut = Some (\<lambda>item.
         case encrypt_fields fields' (own_props (spread [item])) of
           Inl e \<Rightarrow> Inl e
         | Inr encrypted \<Rightarrow> Inr (JObj encrypted)),
       onAfterGet = Some (\<lambda>item. Inr (JObj (decrypt_fields fields' (own_props (spread [item]))))),
       onBeforeQuery = None, onAfterQuery = None, onBeforeDelete = None \<rparr>"

section \<open>The filter expression compiler\<close>

text \<open>
  The source tells the shapes of a predicate apart by the keys the object has
  (\<open>"attribute" in f\<close>, \<open>"eq" in f\<close>, ...), in a fixed order. A predicate node is therefore
  the record of the nine keys the compiler looks at, each present or absent; the fields
  are named after the keys (\<open>in\<close>, \<open>and\<close>, \<open>or\<close> and \<open>not\<close> are reserved words here).
\<close>

datatype filterExpression = FilterNode
  (f_attribute: "string option") (f_eq: "jv option") (f_ne: "jv option")
  (f_exists: "bool option") (f_contains: "jv option") (f_in: "jv list option")
  (f_and: "filterExpression list option") (f_or: "filterExpression list option") (f_not: "filterExpression option")

text \<open>
  The two substitution tables \<open>names\<close> and \<open>values\<close>, the counters of the closure of
  \<open>buildFilterExpression\<close>, and the object it returns.
\<close>

record placeholders =
  names :: "(string \<times> string) list"
  values' :: "(string \<times> jv) list"

record counters = placeholders +
  valueCounter :: nat
  nameCounter :: nat

record compiled = placeholders +
  expr :: string

text \<open>The placeholders \<open>`#n${nameCounter}`\<close> and \<open>`:v${valueCounter}`\<close>.\<close>

definition name_key :: "nat \<Rightarrow> string" where
  "name_key n = ''#n'' @ show_nat n"

definition value_key :: "nat \<Rightarrow> string" where
  "value_key n = '':v'' @ show_nat n"

text \<open>
  \<open>const nameKey = `#n${nameCounter++}`; names[nameKey] = attr\<close>, and the same for a
  value; \<open>alloc_values\<close> is the \<open>forEach\<close> over the members of \<open>f.in\<close>.
\<close>

definition alloc_name :: "string \<Rightarrow> counters \<Rightarrow> string \<times> counters" where
  "alloc_name attr st =
     (let nameKey = name_key (nameCounter st) in
      (nameKey, st\<lparr> nameCounter := nameCounter st + 1,
                     names := AList.update nameKey attr (names st) \<rparr>))"

definition alloc_value :: "jv \<Rightarrow> counters \<Rightarrow> string \<times> counters" where
  "alloc_value v st =
     (let valKey = value_key (valueCounter st) in
      (valKey, st\<lparr> valueCounter := valueCounter st + 1,
                    values' := AList.update valKey v (values' st) \<rparr>))"

fun alloc_values :: "jv list \<Rightarrow> counters \<Rightarrow> string list \<times> counters" where
  "alloc_values [] st = ([], st)"
| "alloc_values (v # vs) st =
     (case alloc_value v st of
        (valKey, st1) \<Rightarrow> (case alloc_values vs st1 of (inValues, st2) \<Rightarrow> (valKey # inValues, st2)))"

text \<open>
  \<open>buildExpr\<close>, with the tables and counters passed through; \<open>buildExprs\<close> is
  \<open>fs.map(buildExpr)\<close>, which compiles the children from left to right.
\<close>

fun buildExpr :: "filterExpression \<Rightarrow> counters \<Rightarrow> error + (string \<times> counters)"
  and buildExprs :: "filterExpression list \<Rightarrow> counters \<Rightarrow> error + (string list \<times> counters)" where
  "buildExpr (FilterNode attribute eq ne exists contains inn and' or' not') st =
     (case attribute of
        Some attr \<Rightarrow>
          (case alloc_name attr st of
             (nameKey, st1) \<Rightarrow>
               (case eq of
                  Some v \<Rightarrow>
                    (case alloc_value v st1 of
                       (valKey, st2) \<Rightarrow> Inr (nameKey @ '' = '' @ valKey, st2))
                | None \<Rightarrow>
               (case ne of
                  Some v \<Rightarrow>
                    (case alloc_value v st1 of
                       (valKey, st2) \<Rightarrow> Inr (nameKey @ '' <> '' @ valKey, st2))
                | None \<Rightarrow>
               (case exists of
                  Some b \<Rightarrow>
                    Inr (if b then ''attribute_exists('' @ nameKey @ '')''
                         else ''attribute_not_exists('' @ nameKey @ '')'', st1)
                | None \<Rightarrow>
               (case contains of
                  Some v \<Rightarrow>
                    (case alloc_value v st1 of
                       (valKey, st2) \<Rightarrow> Inr (''contains('' @ nameKey @ '', '' @ valKey @ '')'', st2))
                | None \<Rightarrow>
               (case inn of
                  Some vs \<Rightarrow>
                    (case alloc_values vs st1 of
                       (inValues, st2) \<Rightarrow>
                         Inr (nameKey @ '' IN ('' @ join '','' inValues @ '')'', st2))
                | None \<Rightarrow>
                    Inl (InvalidExpression (''Unsupported filter condition on attribute '' @ attr))))))))
      | None \<Rightarrow>
     (case and' of
        Some fs \<Rightarrow>
          (case buildExprs fs st of
             Inl e \<Rightarrow> Inl e
           | Inr (es, st1) \<Rightarrow> Inr (''('' @ join '' AND '' es @ '')'', st1))
      | None \<Rightarrow>
     (case or' of
        Some fs \<Rightarrow>
          (case buildExprs fs st of
             Inl e \<Rightarrow> Inl e
           | Inr (es, st1) \<Rightarrow> Inr (''('' @ join '' OR '' es @ '')'', st1))
      | None \<Rightarrow>
     (case not' of
        Some g \<Rightarrow>
          (case buildExpr g st of
             Inl e \<Rightarrow> Inl e
           | Inr (e, st1) \<Rightarrow> Inr (''NOT ('' @ e @ '')'', st1))
      | None \<Rightarrow>
          Inl (InvalidExpression ''Invalid filter expression: missing attribute, and, or, or not'')))))"
| "buildExprs [] st = Inr ([], st)"
| "buildExprs (f # fs) st =
     (case buildExpr f st of
        Inl e \<Rightarrow> Inl e
      | Inr (e, st1) \<Rightarrow>
          (case buildExprs fs st1 of
             Inl e' \<Rightarrow> Inl e'
           | Inr (es, st2) \<Rightarrow> Inr (e # es, st2)))"

definition buildFilterExpression :: "filterExpression \<Rightarrow> error + compiled" where
  "buildFilterExpression f =
     (case buildExpr f \<lparr> names = [], values' = [], valueCounter = 0, nameCounter = 0 \<rparr> of
        Inl e \<Rightarrow> Inl e
      | Inr (e, st) \<Rightarrow> Inr \<lparr> names = names st, values' = values' st, expr = e \<rparr>)"



section \<open>Shapes of predicate trees\<close>

text \<open>
  \<open>unrecognized f\<close>: the traversal of \<open>f\<close> reaches a leaf that has an attribute and none of
  the operators, or a node that has none of \<open>attribute\<close>, \<open>and\<close>, \<open>or\<close>, \<open>not\<close>.
  \<open>leaf_attributes f\<close> and \<open>leaf_operands f\<close> are the attribute names and the operands of
  the leaves of \<open>f\<close> in traversal order.
\<close>

fun unrecognized :: "filterExpression \<Rightarrow> bool"
  and unrecognized_any :: "filterExpression list \<Rightarrow> bool" where
  "unrecognized (FilterNode attribute eq ne exists contains inn and' or' not') =
     (case attribute of
        Some attr \<Rightarrow> eq = None \<and> ne = None \<and> exists = None \<and> contains = None \<and> inn = None
      | None \<Rightarrow>
     (case and' of
        Some fs \<Rightarrow> unrecognized_any fs
      | None \<Rightarrow>
     (case or' of
        Some fs \<Rightarrow> unrecognized_any fs
      | None \<Rightarrow>
     (case not' of
        Some g \<Rightarrow> unrecognized g
      | None \<Rightarrow> True))))"
| "unrecognized_any [] = False"
| "unrecognized_any (f # fs) = (unrecognized f \<or> unrecognized_any fs)"






section \<open>JSON-serializable values\<close>


section \<open>Auxiliary notions\<close>



definition sextets :: "string \<Rightarrow> nat list" where
  "sextets s = List.map_filter b64_index (takeWhile (\<lambda>c. c \<noteq> CHR ''='') s)"





section \<open>The entity update as the specification words it\<close>

text \<open>
  The specification describes the entity \<open>update\<close> as layered above the facade's own
  read-modify-write. This definition follows those words: it is \<open>entity_update\<close> with the
  final write done by the facade's \<open>update\<close>. It is used only to compare the source with.
\<close>

definition entity_update_as_specified ::
  "dodoConfig \<Rightarrow> entityConfig \<Rightarrow> string \<Rightarrow> jv \<Rightarrow> client \<Rightarrow> (error + jv) \<times> client" where
  "entity_update_as_specified dodo config ident updates c =
     (case entity_get dodo config ident c of
        (Inl e, c') \<Rightarrow> (Inl e, c')
      | (Inr current, c') \<Rightarrow>
          (if \<not> truthy current
           then (Inl (NotFound (entityConfig.name config @ '' '' @ ident @ '' not found'')), c')
           else
             (case entity_applyPlugins (entityConfig.plugins config) BeforeUpdate [JStr ident, updates] of
                Inl e \<Rightarrow> (Inl e, c')
              | Inr transformed \<Rightarrow>
                  (case schema config (spread [current, transformed]) of
                     Inl e \<Rightarrow> (Inl e, c')
                   | Inr validated \<Rightarrow>
                       (case fromId (keys config) ident of
                          Inl e \<Rightarrow> (Inl e, c')
                        | Inr key \<Rightarrow>
                            (case dodo_update dodo key validated c' of
                               (Inl e, c'') \<Rightarrow> (Inl e, c'')
                             | (Inr u, c'') \<Rightarrow> (Inr validated, c'')))))))"

fun is_get :: "command \<Rightarrow> bool" where
  "is_get (GetCommand tbl key) = True"
| "is_get cmd = False"

section \<open>Example configurations\<close>

definition empty_client :: client where
  "empty_client = \<lparr> content = (\<lambda>tbl key. None), sent = [] \<rparr>"

definition user_key :: dodoKey where
  "user_key = \<lparr> pk = ''USER#1'', sk = ''USER#META'' \<rparr>"

definition client_with :: "jv \<Rightarrow> client" where
  "client_with item =
     \<lparr> content = (\<lambda>tbl key. if tbl = ''t'' \<and> key = user_key then Some item else None),
       sent = [] \<rparr>"

definition plain_store :: dodoConfig where
  "plain_store = \<lparr> table = ''t'', plugins = [] \<rparr>"

text \<open>A store plugin and an entity plugin whose handler returns nothing.\<close>

definition silent_store_plugin :: dodoPlugin where
  "silent_store_plugin =
     \<lparr> dodoPlugin.name = ''audit'', onBeforePut = Some (\<lambda>item. Inr JUndefined),
       onAfterGet = None, onBeforeQuery = None, onAfterQuery = None, onBeforeDelete = None \<rparr>"

definition silent_entity_plugin :: entityPlugin where
  "silent_entity_plugin =
     \<lparr> entityPlugin.name = Some ''audit'', beforeCreate = Some (\<lambda>args. Inr JUndefined),
       afterCreate = None, beforeGet = None, afterGet = None, beforeUpdate = None,
       afterUpdate = None, beforeDelete = None, afterDelete = None,
       beforeQuery = None, afterQuery = None \<rparr>"

definition passthrough :: "jv \<Rightarrow> error + jv" where
  "passthrough v = Inr v"

definition soft_users :: entityConfig where
  "soft_users = \<lparr> name = ''User'', schema = passthrough, keys = single ''USER'',
                  plugins = [softDelete ''2024-01-01T00:00:00.000Z''] \<rparr>"

definition active_user :: jv where
  "active_user = JObj [(''pk'', JStr ''USER#1''), (''sk'', JStr ''USER#META''),
                       (''id'', JStr ''1''), (''name'', JStr ''Alice'')]"

definition deleted_user :: jv where
  "deleted_user = JObj [(''pk'', JStr ''USER#1''), (''sk'', JStr ''USER#META''),
                        (''id'', JStr ''1''), (''deleted'', JBool True)]"

definition rename_bob :: jv where
  "rename_bob = JObj [(''name'', JStr ''Bob'')]"

definition role_admin :: filterExpression where
  "role_admin = FilterNode (Some ''role'') (Some (JStr ''admin'')) None None None None None None None"

definition status_active :: filterExpression where
  "status_active =
     FilterNode (Some ''status'') None (Some (JStr ''inactive'')) None None None None None None"

definition admin_and_active :: filterExpression where
  "admin_and_active = FilterNode None None None None None None (Some [role_admin, status_active]) None None"

definition empty_and :: filterExpression where
  "empty_and = FilterNode None None None None None None (Some []) None None"

definition empty_or :: filterExpression where
  "empty_or = FilterNode None None None None None None None (Some []) None"



text \<open>
  A schema that keeps the fields \<open>id\<close> and \<open>name\<close> and strips every other key, as an
  object schema of the validation library does by default.
\<close>

definition id_and_name :: "jv \<Rightarrow> error + jv" where
  "id_and_name v = Inr (JObj (filter (\<lambda>(k, x). k = ''id'' \<or> k = ''name'') (own_props v)))"

definition strict_users :: entityConfig where
  "strict_users = \<lparr> name = ''User'', schema = id_and_name, keys = single ''USER'',
                    plugins = [softDelete ''2024-01-01T00:00:00.000Z''] \<rparr>"

definition plain_users :: entityConfig where
  "plain_users = \<lparr> name = ''User'', schema = passthrough, keys = single ''USER'', plugins = [] \<rparr>"

definition legacy_user :: jv where
  "legacy_user = JObj [(''pk'', JStr ''USER#1''), (''sk'', JStr ''USER#META''),
                       (''id'', JStr ''1''), (''name'', JStr ''Alice''), (''legacy'', JBool True)]"




section \<open>Auxiliary facts\<close>

lemmas example_defs = empty_client_def user_key_def client_with_def plain_store_def
  silent_store_plugin_def silent_entity_plugin_def passthrough_def soft_users_def
  active_user_def deleted_user_def rename_bob_def id_and_name_def strict_users_def
  plain_users_def legacy_user_def

lemmas run_defs = entity_get_def entity_update_def entity_update_as_specified_def
  dodo_get_def dodo_put_def dodo_update_def send_get_def send_put_def item_key_def
  single_def rest_data_def entity_applyPlugins_def softDelete_def arg_def in_op_def
  get_prop_def nullish_def spread_def assign_def key_obj_def has_property_def
  object_prototype_methods_def

lemma map_of_assign:
  "distinct (map fst ps) \<Longrightarrow>
   map_of (assign acc ps) k = (case map_of ps k of Some v \<Rightarrow> Some v | None \<Rightarrow> map_of acc k)"
proof (induction ps arbitrary: acc)
  case Nil
  then show ?case by (simp add: assign_def)
next
  case (Cons p ps)
  obtain a b where p: "p = (a, b)" by (cases p)
  have none: "map_of ps a = None"
    using Cons.prems p by (simp add: map_of_eq_None_iff)
  have step: "assign acc ((a, b) # ps) = assign (AList.update a b acc) ps"
    by (simp add: assign_def)
  have "map_of (assign (AList.update a b acc) ps) k =
        (case map_of ps k of Some v \<Rightarrow> Some v | None \<Rightarrow> map_of (AList.update a b acc) k)"
    using Cons.IH Cons.prems by simp
  then show ?case
    using none by (auto simp: step p update_conv' split: option.splits)
qed

lemma distinct_assign:
  "distinct (map fst acc) \<Longrightarrow> distinct (map fst (assign acc ps))"
  by (induction ps arbitrary: acc) (auto simp: assign_def distinct_update)

lemma spread3:
  "spread [a, b, d] = JObj (assign (assign (assign [] (own_props a)) (own_props b)) (own_props d))"
  by (simp add: spread_def)

lemma nullish_present:
  "v \<noteq> JUndefined \<Longrightarrow> v \<noteq> JNull \<Longrightarrow> nullish t v \<noteq> JUndefined \<and> nullish t v \<noteq> JNull"
  by (simp add: nullish_def)

text \<open>
  Whatever the handlers return, the entity pipeline never turns a value that is neither
  \<open>undefined\<close> nor \<open>null\<close> into one of them.
\<close>

lemma entity_applyLoop_never_absent:
  "entity_applyLoop ps phase v extra = Inr r \<Longrightarrow> v \<noteq> JUndefined \<Longrightarrow> v \<noteq> JNull
   \<Longrightarrow> r \<noteq> JUndefined \<and> r \<noteq> JNull"
proof (induction ps arbitrary: v)
  case Nil
  then show ?case by simp
next
  case (Cons p ps)
  show ?case
  proof (cases "entity_handler p phase")
    case None
    with Cons show ?thesis by simp
  next
    case (Some fn)
    show ?thesis
    proof (cases "fn (v # extra)")
      case (Inl e)
      with Some Cons.prems show ?thesis by simp
    next
      case (Inr t)
      then have "entity_applyLoop ps phase (nullish t v) extra = Inr r"
        using Some Cons.prems(1) by simp
      then show ?thesis
        using Cons.IH nullish_present [OF Cons.prems(2,3)] by blast
    qed
  qed
qed

lemma dodo_put_sends_no_get:
  "filter is_get (sent (snd (dodo_put dodo item c))) = filter is_get (sent c)"
  by (simp add: dodo_put_def send_put_def Let_def split: sum.splits option.splits)

subsection \<open>Placeholders are fresh\<close>






lemma update_fresh: "k \<notin> fst ` set ps \<Longrightarrow> AList.update k v ps = ps @ [(k, v)]"
  by (induction ps) auto










subsection \<open>When the compiler fails\<close>

lemma buildExpr_fails:
  "isl (buildExpr f st) = unrecognized f"
  "isl (buildExprs fs st) = unrecognized_any fs"
proof (induction f st and fs st rule: buildExpr_buildExprs.induct)
  case (1 attribute eq ne exists contains inn and' or' not' st)
  show ?case
  proof (cases attribute)
    case (Some attr)
    then show ?thesis
      by (simp split: option.splits prod.splits)
  next
    case None
    then show ?thesis
      using "1.IH" by (cases and'; cases or'; cases not') (auto split: sum.splits)
  qed
next
  case (2 st)
  then show ?case by simp
next
  case (3 f fs st)
  show ?case
  proof (cases "buildExpr f st")
    case (Inl e)
    then show ?thesis using "3.IH"(1) by simp
  next
    case (Inr p)
    obtain e1 st1 where p: "p = (e1, st1)" by (cases p)
    have "isl (buildExprs fs st1) = unrecognized_any fs"
      using "3.IH"(2) Inr p by simp
    moreover have "\<not> unrecognized f"
      using "3.IH"(1) Inr by simp
    ultimately show ?thesis
      using Inr p by (auto split: sum.splits)
  qed
qed

lemma buildExpr_error_kind:
  "buildExpr f st = Inl err \<Longrightarrow> \<exists>msg. err = InvalidExpression msg"
  "buildExprs fs st = Inl err \<Longrightarrow> \<exists>msg. err = InvalidExpression msg"
proof (induction f st and fs st rule: buildExpr_buildExprs.induct)
  case (1 attribute eq ne exists contains inn and' or' not' st)
  show ?case
  proof (cases attribute)
    case (Some attr)
    then show ?thesis
      using "1.prems" by (auto split: option.splits prod.splits)
  next
    case None
    then show ?thesis
      using "1.prems" "1.IH" by (cases and'; cases or'; cases not') (auto split: sum.splits)
  qed
next
  case (2 st)
  then show ?case by simp
next
  case (3 f fs st)
  show ?case
  proof (cases "buildExpr f st")
    case (Inl e)
    then show ?thesis using "3.IH"(1) "3.prems" by simp
  next
    case (Inr p)
    obtain e1 st1 where p: "p = (e1, st1)" by (cases p)
    have "buildExprs fs st1 = Inl err"
      using "3.prems" Inr p by (auto split: sum.splits)
    then show ?thesis
      using "3.IH"(2) Inr p by simp
  qed
qed

subsection \<open>Objects as lists of properties\<close>

lemma assign_distinct:
  "distinct (map fst (acc @ ps)) \<Longrightarrow> assign acc ps = acc @ ps"
proof (induction ps arbitrary: acc)
  case Nil
  then show ?case by (simp add: assign_def)
next
  case (Cons p ps)
  obtain a b where p: "p = (a, b)" by (cases p)
  have fresh: "a \<notin> fst ` set acc" using Cons.prems p by auto
  have "assign acc (p # ps) = assign (AList.update a b acc) ps"
    by (simp add: assign_def p)
  also have "\<dots> = assign (acc @ [(a, b)]) ps"
    using update_fresh [OF fresh] by simp
  also have "\<dots> = (acc @ [(a, b)]) @ ps"
    using Cons.prems p by (intro Cons.IH) simp
  finally show ?case using p by simp
qed



subsection \<open>Base64 and numbers\<close>




















subsection \<open>Numbers and strings in JSON texts\<close>





lemma hex_digit_val: "d < 16 \<Longrightarrow> hex_val (hex_digit d) = Some d"
proof -
  have "\<forall>d \<in> set [0..<16]. hex_val (hex_digit d) = Some d"
    by code_simp
  then show "d < 16 \<Longrightarrow> hex_val (hex_digit d) = Some d"
    by simp
qed

lemma hex_val_zero: "hex_val CHR ''0'' = Some 0"
  by code_simp

lemma parse_string_quote_char:
  assumes "parse_string tail = Some (t, r)"
  shows "parse_string (quote_char c @ tail) = Some (c # t, r)"
proof -
  consider (quote) "c = CHR 0x22" | (backslash) "c = CHR 0x5C" | (b) "c = CHR 0x08"
    | (f) "c = CHR 0x0C" | (n) "c = CHR 0x0A" | (r) "c = CHR 0x0D" | (t) "c = CHR 0x09"
    | (control) "c \<noteq> CHR 0x22" "c \<noteq> CHR 0x5C" "c \<noteq> CHR 0x08" "c \<noteq> CHR 0x0C" "c \<noteq> CHR 0x0A"
        "c \<noteq> CHR 0x0D" "c \<noteq> CHR 0x09" "(of_char c :: nat) < 32"
    | (plain) "c \<noteq> CHR 0x22" "c \<noteq> CHR 0x5C" "\<not> (of_char c :: nat) < 32"
    by fastforce
  then show ?thesis
  proof cases
    case quote
    then show ?thesis using assms by (simp add: quote_char_def unescape_def)
  next
    case backslash
    then show ?thesis using assms by (simp add: quote_char_def unescape_def)
  next
    case b
    then show ?thesis using assms by (simp add: quote_char_def unescape_def)
  next
    case f
    then show ?thesis using assms by (simp add: quote_char_def unescape_def)
  next
    case n
    then show ?thesis using assms by (simp add: quote_char_def unescape_def)
  next
    case r
    then show ?thesis using assms by (simp add: quote_char_def unescape_def)
  next
    case t
    then show ?thesis using assms by (simp add: quote_char_def unescape_def)
  next
    case control
    have h1: "hex_val (hex_digit (of_char c div 16)) = Some (of_char c div 16)"
      using control(8) by (intro hex_digit_val) simp
    have h2: "hex_val (hex_digit (of_char c mod 16)) = Some (of_char c mod 16)"
      by (intro hex_digit_val) simp
    have u: "unhex4 [CHR ''0'', CHR ''0'', hex_digit (of_char c div 16), hex_digit (of_char c mod 16)]
             = Some (of_char c)"
      by (simp add: unhex4_def hex_val_zero h1 h2)
    show ?thesis
      using control assms by (simp add: quote_char_def u)
  next
    case plain
    then have "quote_char c = [c]"
      by (auto simp: quote_char_def)
    then show ?thesis using plain assms by simp
  qed
qed

lemma parse_string_quoted:
  "parse_string (concat (map quote_char s) @ CHR 0x22 # rest) = Some (s, rest)"
proof (induction s)
  case Nil
  then show ?case by simp
next
  case (Cons c s)
  then show ?case
    using parse_string_quote_char [of "concat (map quote_char s) @ CHR 0x22 # rest" s rest c]
    by simp
qed

lemma parse_string_quote: "parse_string (tl (quote s) @ rest) = Some (s, rest)"
  using parse_string_quoted [of s rest] by (simp add: quote_def)

subsection \<open>JSON values\<close>














subsection \<open>The encryption plugin\<close>

















subsection \<open>The encryption plugin in the store pipeline\<close>






lemma spread2: "spread [a, b] = JObj (assign (assign [] (own_props a)) (own_props b))"
  by (simp add: spread_def)

lemma item_key_spread_key: "item_key (spread [v, key_obj key]) = Some key"
  by (simp add: spread_def item_key_def map_of_assign key_obj_def)

section \<open>Properties of the key transformers\<close>

text \<open>
  Claim C8. For every identifier, \<open>fromId\<close> of the single variant returns a key, and
  \<open>fromId\<close> of a custom variant built with a reverse function is that function; \<open>fromId\<close>
  of the tenant and hierarchy variants fails with the unsupported-reverse-mapping error,
  and \<open>fromId\<close> of a custom variant built without a reverse function fails with the
  not-implemented error.
\<close>

theorem fromId_variants:
  "fromId (single t) i = Inr \<lparr> pk = t @ ''#'' @ i, sk = t @ ''#META'' \<rparr>
   \<and> fromId (custom tk (Some rev_fn)) i = rev_fn i
   \<and> fromId (tenant t) i = Inl (UnsupportedReverseMapping ''Tenant transformer requires tenantId'')
   \<and> fromId (hierarchy t) i =
       Inl (UnsupportedReverseMapping ''Hierarchy transformer requires parentId'')
   \<and> fromId (custom tk None) i = Inl (NotImplemented ''fromId not implemented'')"
  by (simp add: single_def custom_def tenant_def hierarchy_def)

text \<open>
  Claim C9. For every type string and every record that has the required fields as
  strings, the forward mapping produces the key shapes of the three built-in variants:
  single gives type#id and type#META, which is also what its \<open>fromId\<close> gives for that id;
  tenant gives TENANT#tenantId and type#id; hierarchy gives type#parentId and type#id.
\<close>

theorem toKey_shapes:
  "(map_of item1 ''id'' = Some (JStr i1) \<longrightarrow>
      toKey (single t) (JObj item1) = Inr \<lparr> pk = t @ ''#'' @ i1, sk = t @ ''#META'' \<rparr>
      \<and> fromId (single t) i1 = toKey (single t) (JObj item1))
   \<and> (map_of item2 ''id'' = Some (JStr i2) \<and> map_of item2 ''tenantId'' = Some (JStr tn) \<longrightarrow>
      toKey (tenant t) (JObj item2) = Inr \<lparr> pk = ''TENANT#'' @ tn, sk = t @ ''#'' @ i2 \<rparr>)
   \<and> (map_of item3 ''id'' = Some (JStr i3) \<and> map_of item3 ''parentId'' = Some (JStr pn) \<longrightarrow>
      toKey (hierarchy t) (JObj item3) = Inr \<lparr> pk = t @ ''#'' @ pn, sk = t @ ''#'' @ i3 \<rparr>)"
  by (simp add: single_def tenant_def hierarchy_def get_prop_def)

theorem toKey_shapes_witness:
  "toKey (single ''USER'') (JObj [(''id'', JStr ''42'')])
     = Inr \<lparr> pk = ''USER#42'', sk = ''USER#META'' \<rparr>
   \<and> fromId (single ''USER'') ''42'' = Inr \<lparr> pk = ''USER#42'', sk = ''USER#META'' \<rparr>
   \<and> toKey (tenant ''POST'') (JObj [(''id'', JStr ''p1''), (''tenantId'', JStr ''t1'')])
     = Inr \<lparr> pk = ''TENANT#t1'', sk = ''POST#p1'' \<rparr>
   \<and> toKey (hierarchy ''COMMENT'') (JObj [(''id'', JStr ''c1''), (''parentId'', JStr ''post1'')])
     = Inr \<lparr> pk = ''COMMENT#post1'', sk = ''COMMENT#c1'' \<rparr>"
  using toKey_shapes [of "[(''id'', JStr ''42'')]" "''42''" "''USER''"
      "[(''id'', JStr ''p1''), (''tenantId'', JStr ''t1'')]" "''p1''" "''t1''"
      "[(''id'', JStr ''c1''), (''parentId'', JStr ''post1'')]" "''c1''" "''post1''"]
    toKey_shapes [of "[(''id'', JStr ''42'')]" "''42''" "''POST''"
      "[(''id'', JStr ''p1''), (''tenantId'', JStr ''t1'')]" "''p1''" "''t1''"
      "[(''id'', JStr ''c1''), (''parentId'', JStr ''post1'')]" "''c1''" "''post1''"]
    toKey_shapes [of "[(''id'', JStr ''42'')]" "''42''" "''COMMENT''"
      "[(''id'', JStr ''p1''), (''tenantId'', JStr ''t1'')]" "''p1''" "''t1''"
      "[(''id'', JStr ''c1''), (''parentId'', JStr ''post1'')]" "''c1''" "''post1''"]
  by simp


section \<open>Properties of the store facade\<close>

text \<open>
  Claim C5. For every key at which the table holds no record, the facade's
  \<open>update(key, updates)\<close> fails with the not-found error and writes nothing: the content of
  the tables is unchanged, and the only command sent is the get.
\<close>

theorem dodo_update_absent:
  assumes "content c (table config) key = None"
  shows "dodo_update config key updates c =
           (Inl (NotFound (''Item not found: '' @ pk key @ ''/'' @ sk key)),
            c\<lparr> sent := sent c @ [GetCommand (table config) key] \<rparr>)
         \<and> content (snd (dodo_update config key updates c)) = content c
         \<and> sent (snd (dodo_update config key updates c)) = sent c @ [GetCommand (table config) key]"
  using assms by (simp add: dodo_update_def dodo_get_def send_get_def)

theorem dodo_update_absent_witness:
  "content empty_client ''t'' user_key = None
   \<and> dodo_update plain_store user_key rename_bob empty_client
      = (Inl (NotFound ''Item not found: USER#1/USER#META''),
         empty_client\<lparr> sent := [GetCommand ''t'' user_key] \<rparr>)"
proof -
  have h: "content empty_client (table plain_store) user_key = None"
    by (simp add: empty_client_def)
  show ?thesis
    using dodo_update_absent [OF h, of rename_bob]
    by (simp add: empty_client_def plain_store_def user_key_def)
qed

text \<open>
  Claim C6. For every key at which the facade's get returns a record and every
  partial-updates object, \<open>update(key, updates)\<close> puts the merged record, and the merged
  record is the shallow merge of the updates over the current record: \<open>pk\<close> and \<open>sk\<close> are
  those of the key argument, every other field that the updates have has the updates'
  value, and every remaining field has the current record's value. The put runs the
  before-put pipeline on the merged record and sends its output in one \<open>PutCommand\<close>. In
  a store without plugins the merged record itself is sent, and afterwards the table
  holds it, without its \<open>undefined\<close> members, at the key.
\<close>

theorem dodo_update_merges:
  assumes "dodo_get config key c = (Inr existing, c')"
    and "truthy existing"
    and "distinct (map fst (own_props existing))"
    and "distinct (map fst (own_props updates))"
  shows "\<exists>merged. spread [existing, updates, key_obj key] = JObj merged
           \<and> distinct (map fst merged)
           \<and> (\<forall>k. map_of merged k =
                 (if k = ''pk'' then Some (JStr (pk key))
                  else if k = ''sk'' then Some (JStr (sk key))
                  else (case map_of (own_props updates) k of
                          Some v \<Rightarrow> Some v
                        | None \<Rightarrow> map_of (own_props existing) k)))
           \<and> dodo_update config key updates c = dodo_put config (JObj merged) c'
           \<and> (\<forall>item. dodo_applyPlugins (dodoConfig.plugins config) OnBeforePut (JObj merged) = Inr item
                 \<longrightarrow> sent (snd (dodo_update config key updates c))
                       = sent c' @ [PutCommand (table config) item])
           \<and> (dodoConfig.plugins config = [] \<longrightarrow>
                 dodo_update config key updates c =
                   (Inr (),
                    c'\<lparr> sent := sent c' @ [PutCommand (table config) (JObj merged)],
                        content := (content c')(table config := (content c' (table config))
                           (key \<mapsto> removeUndefinedValues (JObj merged))) \<rparr>))"
proof -
  let ?m = "assign (assign (assign [] (own_props existing)) (own_props updates)) (own_props (key_obj key))"
  have eq: "spread [existing, updates, key_obj key] = JObj ?m"
    by (rule spread3)
  have upd: "dodo_update config key updates c = dodo_put config (JObj ?m) c'"
    using assms(1,2) by (simp add: dodo_update_def eq)
  have d: "distinct (map fst ?m)"
    by (intro distinct_assign) simp
  have look: "map_of ?m k =
        (if k = ''pk'' then Some (JStr (pk key))
         else if k = ''sk'' then Some (JStr (sk key))
         else (case map_of (own_props updates) k of
                 Some v \<Rightarrow> Some v
               | None \<Rightarrow> map_of (own_props existing) k))" for k
    using assms(3,4) by (simp add: map_of_assign key_obj_def split: option.splits)
  have sends: "sent (snd (dodo_update config key updates c)) = sent c' @ [PutCommand (table config) item]"
    if "dodo_applyPlugins (dodoConfig.plugins config) OnBeforePut (JObj ?m) = Inr item" for item
    unfolding upd using that by (simp add: dodo_put_def send_put_def Let_def split: option.splits)
  have k: "item_key (JObj ?m) = Some key"
    using look [of "''pk''"] look [of "''sk''"] by (simp add: item_key_def)
  have plain: "dodo_update config key updates c =
                   (Inr (),
                    c'\<lparr> sent := sent c' @ [PutCommand (table config) (JObj ?m)],
                        content := (content c')(table config := (content c' (table config))
                           (key \<mapsto> removeUndefinedValues (JObj ?m))) \<rparr>)"
    if "dodoConfig.plugins config = []"
    unfolding upd using that k by (simp add: dodo_put_def send_put_def Let_def)
  show ?thesis
    using eq d look upd sends plain by blast
qed

theorem dodo_update_merges_witness:
  "dodo_get plain_store user_key (client_with active_user)
     = (Inr active_user, (client_with active_user)\<lparr> sent := [GetCommand ''t'' user_key] \<rparr>)
   \<and> truthy active_user
   \<and> distinct (map fst (own_props active_user))
   \<and> distinct (map fst (own_props rename_bob))
   \<and> spread [active_user, rename_bob, key_obj user_key]
     = JObj [(''pk'', JStr ''USER#1''), (''sk'', JStr ''USER#META''),
             (''id'', JStr ''1''), (''name'', JStr ''Bob'')]
   \<and> dodo_update plain_store user_key rename_bob (client_with active_user)
     = (Inr (),
        (client_with active_user)
          \<lparr> sent := [GetCommand ''t'' user_key,
                     PutCommand ''t'' (JObj [(''pk'', JStr ''USER#1''), (''sk'', JStr ''USER#META''),
                                            (''id'', JStr ''1''), (''name'', JStr ''Bob'')])],
            content := (content (client_with active_user))
               (''t'' := (content (client_with active_user) ''t'')
                  (user_key \<mapsto> JObj [(''pk'', JStr ''USER#1''), (''sk'', JStr ''USER#META''),
                                      (''id'', JStr ''1''), (''name'', JStr ''Bob'')])) \<rparr>)"
proof -
  have h1: "dodo_get plain_store user_key (client_with active_user)
     = (Inr active_user, (client_with active_user)\<lparr> sent := [GetCommand ''t'' user_key] \<rparr>)"
    by (simp add: dodo_get_def send_get_def example_defs)
  have h2: "truthy active_user"
    by (simp add: active_user_def)
  have h3: "distinct (map fst (own_props active_user))"
    by (simp add: active_user_def)
  have h4: "distinct (map fst (own_props rename_bob))"
    by (simp add: rename_bob_def)
  have m: "spread [active_user, rename_bob, key_obj user_key] =
           JObj [(''pk'', JStr ''USER#1''), (''sk'', JStr ''USER#META''),
                 (''id'', JStr ''1''), (''name'', JStr ''Bob'')]"
    by (simp add: spread_def assign_def key_obj_def example_defs)
  have p: "dodoConfig.plugins plain_store = []" "table plain_store = ''t''"
    by (simp_all add: plain_store_def)
  show ?thesis
    using dodo_update_merges [OF h1 h2 h3 h4] h1 h2 h3 h4 m p by auto
qed

section \<open>Properties of the plugin pipelines\<close>

text \<open>
  Both pipelines call the handlers of a phase in list order on the running value. They
  differ when a handler returns nothing: the entity pipeline keeps the running value, the
  store pipeline replaces it with \<open>undefined\<close>.
\<close>

lemma entity_applyLoop_no_result:
  "entity_handler p phase = Some fn \<Longrightarrow> fn (v # extra) = Inr JUndefined \<Longrightarrow>
   entity_applyLoop (p # ps) phase v extra = entity_applyLoop ps phase v extra"
  by (simp add: nullish_def)

lemma entity_applyLoop_result:
  "entity_handler p phase = Some fn \<Longrightarrow> fn (v # extra) = Inr r \<Longrightarrow> r \<noteq> JUndefined \<Longrightarrow>
   r \<noteq> JNull \<Longrightarrow> entity_applyLoop (p # ps) phase v extra = entity_applyLoop ps phase r extra"
  by (simp add: nullish_def)

lemma entity_applyLoop_absent_handler:
  "entity_handler p phase = None \<Longrightarrow>
   entity_applyLoop (p # ps) phase v extra = entity_applyLoop ps phase v extra"
  by simp

lemma dodo_applyPlugins_result:
  "dodo_handler p phase = Some fn \<Longrightarrow> fn v = Inr r \<Longrightarrow>
   dodo_applyPlugins (p # ps) phase v = dodo_applyPlugins ps phase r"
  by simp

lemma dodo_applyPlugins_absent_handler:
  "dodo_handler p phase = None \<Longrightarrow>
   dodo_applyPlugins (p # ps) phase v = dodo_applyPlugins ps phase v"
  by simp

text \<open>
  Claim C2, at an input where the source departs from it. A store plugin whose
  \<open>onBeforePut\<close> returns nothing does not leave the item as it was: the store pipeline
  yields \<open>undefined\<close>, and the put sends \<open>undefined\<close> as the item, which the table rejects.
  The entity pipeline, given a handler that returns nothing, keeps the running value.
\<close>

theorem store_pipeline_drops_value:
  "dodo_applyPlugins [silent_store_plugin] OnBeforePut active_user = Inr JUndefined
   \<and> dodo_put \<lparr> table = ''t'', plugins = [silent_store_plugin] \<rparr> active_user empty_client
       = (Inl (TransportFailure ''ValidationException''),
          empty_client\<lparr> sent := [PutCommand ''t'' JUndefined] \<rparr>)
   \<and> entity_applyPlugins [silent_entity_plugin] BeforeCreate [active_user] = Inr active_user"
  by (simp add: silent_store_plugin_def silent_entity_plugin_def dodo_put_def send_put_def
      item_key_def empty_client_def entity_applyPlugins_def nullish_def)

section \<open>Properties of the entity layer\<close>

text \<open>
  Claim C3, at an input where the source departs from it. The users entity has the
  soft-delete plugin, and the table holds user 1 with \<open>deleted = true\<close>. The plugin's
  after-get hook returns \<open>null\<close> for the validated record, and still \<open>get\<close> returns the
  record, not \<open>null\<close>: the pipeline takes a \<open>null\<close> result for no result.
\<close>

theorem entity_get_returns_soft_deleted:
  "(case afterGet (softDelete now) of
      Some hook \<Rightarrow> hook [JObj [(''id'', JStr ''1''), (''deleted'', JBool True)]]
    | None \<Rightarrow> Inr JUndefined) = Inr JNull
   \<and> entity_get plain_store soft_users ''1'' (client_with deleted_user)
       = (Inr (JObj [(''id'', JStr ''1''), (''deleted'', JBool True)]),
          (client_with deleted_user)\<lparr> sent := [GetCommand ''t'' user_key] \<rparr>)"
  by (simp add: example_defs run_defs)

text \<open>
  No after-get hook can make \<open>get\<close> return \<open>null\<close> for a record that the schema accepts as
  a value other than \<open>undefined\<close> and \<open>null\<close>.
\<close>

lemma entity_get_hooks_cannot_filter:
  assumes "fromId (keys config) i = Inr key"
    and "dodo_get dodo key c = (Inr item, c')"
    and "truthy item"
    and "schema config (rest_data item) = Inr validated"
    and "validated \<noteq> JUndefined" and "validated \<noteq> JNull"
    and "entity_get dodo config i c = (Inr r, c'')"
  shows "r \<noteq> JNull"
proof -
  obtain res where res: "entity_applyPlugins (entityConfig.plugins config) AfterGet [validated] = Inr res"
    and r: "r = (if res \<noteq> JUndefined then res else JNull)"
    using assms(1,2,3,4,7) by (auto simp: entity_get_def split: sum.splits)
  have "res \<noteq> JUndefined \<and> res \<noteq> JNull"
    using res assms(5,6) entity_applyLoop_never_absent
    by (simp add: entity_applyPlugins_def)
  then show ?thesis using r by simp
qed

text \<open>
  Claim C1, as amended. When the entity \<open>get\<close> of the identifier returns the current
  value, \<open>update(id, updates)\<close> fails with the not-found error if that value is absent.
  Otherwise, when the before-update hooks yield a record, that record is merged over the
  current value, so that its fields win; the merged value is validated, the identifier is
  mapped back to the key, and the validated value with the key spread over it is written
  by one facade \<open>put\<close>. The put runs the store's before-put pipeline and sends one
  \<open>PutCommand\<close>, after which the table holds the item sent, without its \<open>undefined\<close>
  members, in place of whatever was stored at the item's key; in a store without plugins
  the item is the validated value with the key, stored at that key. The validated value
  is returned. No get is sent after the initial fetch: the write is not the facade's
  read-modify-write \<open>update\<close>, and nothing is merged a second time. What \<open>update\<close> does
  when no before-update hook yields a result is not part of this statement.
\<close>

theorem entity_update_steps:
  assumes "entity_get dodo config i c = (Inr current, c')"
  shows "(\<not> truthy current \<longrightarrow>
            entity_update dodo config i updates c =
              (Inl (NotFound (entityConfig.name config @ '' '' @ i @ '' not found'')), c'))
     \<and> (truthy current
          \<and> entity_applyPlugins (entityConfig.plugins config) BeforeUpdate [JStr i, updates]
              = Inr (JObj ups)
          \<and> schema config (spread [current, JObj ups]) = Inr validated
          \<and> fromId (keys config) i = Inr key
          \<and> dodo_applyPlugins (dodoConfig.plugins dodo) OnBeforePut (spread [validated, key_obj key])
              = Inr item
          \<and> item_key item = Some k \<longrightarrow>
            entity_update dodo config i updates c =
              (Inr validated,
               c'\<lparr> sent := sent c' @ [PutCommand (table dodo) item],
                   content := (content c')(table dodo := (content c' (table dodo))
                      (k \<mapsto> removeUndefinedValues item)) \<rparr>))
     \<and> (truthy current
          \<and> entity_applyPlugins (entityConfig.plugins config) BeforeUpdate [JStr i, updates]
              = Inr (JObj ups)
          \<and> schema config (spread [current, JObj ups]) = Inr validated
          \<and> fromId (keys config) i = Inr key
          \<and> dodoConfig.plugins dodo = [] \<longrightarrow>
            entity_update dodo config i updates c =
              (Inr validated,
               c'\<lparr> sent := sent c' @ [PutCommand (table dodo) (spread [validated, key_obj key])],
                   content := (content c')(table dodo := (content c' (table dodo))
                      (key \<mapsto> removeUndefinedValues (spread [validated, key_obj key]))) \<rparr>))
     \<and> (distinct (map fst (own_props current)) \<and> distinct (map fst ups) \<longrightarrow>
          (\<exists>merged. spread [current, JObj ups] = JObj merged
             \<and> (\<forall>n. map_of merged n =
                   (case map_of ups n of Some v \<Rightarrow> Some v | None \<Rightarrow> map_of (own_props current) n))))
     \<and> filter is_get (sent (snd (entity_update dodo config i updates c))) = filter is_get (sent c')"
proof -
  have steps: "entity_update dodo config i updates c =
     (if \<not> truthy current
      then (Inl (NotFound (entityConfig.name config @ '' '' @ i @ '' not found'')), c')
      else
        (case entity_applyPlugins (entityConfig.plugins config) BeforeUpdate [JStr i, updates] of
           Inl e \<Rightarrow> (Inl e, c')
         | Inr transformed \<Rightarrow>
             (case schema config (spread [current, transformed]) of
                Inl e \<Rightarrow> (Inl e, c')
              | Inr validated \<Rightarrow>
                  (case fromId (keys config) i of
                     Inl e \<Rightarrow> (Inl e, c')
                   | Inr key \<Rightarrow>
                       (case dodo_put dodo (spread [validated, key_obj key]) c' of
                          (Inl e, c'') \<Rightarrow> (Inl e, c'')
                        | (Inr u, c'') \<Rightarrow> (Inr validated, c''))))))"
    using assms by (simp add: entity_update_def)
  have absent: "entity_update dodo config i updates c =
              (Inl (NotFound (entityConfig.name config @ '' '' @ i @ '' not found'')), c')"
    if "\<not> truthy current"
    unfolding steps using that by simp
  have written: "entity_update dodo config i updates c =
              (Inr validated,
               c'\<lparr> sent := sent c' @ [PutCommand (table dodo) item],
                   content := (content c')(table dodo := (content c' (table dodo))
                      (k \<mapsto> removeUndefinedValues item)) \<rparr>)"
    if "truthy current"
      and "entity_applyPlugins (entityConfig.plugins config) BeforeUpdate [JStr i, updates]
              = Inr (JObj ups)"
      and "schema config (spread [current, JObj ups]) = Inr validated"
      and "fromId (keys config) i = Inr key"
      and "dodo_applyPlugins (dodoConfig.plugins dodo) OnBeforePut (spread [validated, key_obj key])
              = Inr item"
      and "item_key item = Some k"
    for item k
    unfolding steps using that by (simp add: dodo_put_def send_put_def Let_def)
  have plain: "entity_update dodo config i updates c =
              (Inr validated,
               c'\<lparr> sent := sent c' @ [PutCommand (table dodo) (spread [validated, key_obj key])],
                   content := (content c')(table dodo := (content c' (table dodo))
                      (key \<mapsto> removeUndefinedValues (spread [validated, key_obj key]))) \<rparr>)"
    if "truthy current"
      and "entity_applyPlugins (entityConfig.plugins config) BeforeUpdate [JStr i, updates]
              = Inr (JObj ups)"
      and "schema config (spread [current, JObj ups]) = Inr validated"
      and "fromId (keys config) i = Inr key"
      and "dodoConfig.plugins dodo = []"
    using written [OF that(1,2,3,4), of "spread [validated, key_obj key]" key] that(5)
      item_key_spread_key [of validated key]
    by simp
  have merge: "\<exists>merged. spread [current, JObj ups] = JObj merged
             \<and> (\<forall>n. map_of merged n =
                   (case map_of ups n of Some v \<Rightarrow> Some v | None \<Rightarrow> map_of (own_props current) n))"
    if "distinct (map fst (own_props current))" and "distinct (map fst ups)"
    using that assign_distinct [of "[]" "own_props current"]
    by (simp add: spread2 map_of_assign)
  have put: "filter is_get (sent (snd (case dodo_put dodo x c' of
                 (Inl e, c'') \<Rightarrow> (Inl e, c'')
               | (Inr u, c'') \<Rightarrow> (Inr y, c'')))) = filter is_get (sent c')"
    for x y
    using dodo_put_sends_no_get [of dodo x c']
    by (cases "dodo_put dodo x c'") (auto split: sum.splits)
  have gets: "filter is_get (sent (snd (entity_update dodo config i updates c))) = filter is_get (sent c')"
    unfolding steps by (simp add: put split: sum.splits)
  show ?thesis
    using absent written plain merge gets by blast
qed

theorem entity_update_steps_witness:
  "entity_get plain_store soft_users ''1'' (client_with active_user)
     = (Inr (JObj [(''id'', JStr ''1''), (''name'', JStr ''Alice'')]),
        (client_with active_user)\<lparr> sent := [GetCommand ''t'' user_key] \<rparr>)
   \<and> entity_applyPlugins (entityConfig.plugins soft_users) BeforeUpdate [JStr ''1'', rename_bob]
     = Inr (JObj [(''name'', JStr ''Bob'')])
   \<and> entity_update plain_store soft_users ''1'' rename_bob (client_with active_user)
     = (Inr (JObj [(''id'', JStr ''1''), (''name'', JStr ''Bob'')]),
        (client_with active_user)
          \<lparr> sent := [GetCommand ''t'' user_key,
                     PutCommand ''t'' (JObj [(''id'', JStr ''1''), (''name'', JStr ''Bob''),
                                            (''pk'', JStr ''USER#1''), (''sk'', JStr ''USER#META'')])],
            content := (content (client_with active_user))
               (''t'' := (content (client_with active_user) ''t'')
                  (user_key \<mapsto> JObj [(''id'', JStr ''1''), (''name'', JStr ''Bob''),
                                      (''pk'', JStr ''USER#1''), (''sk'', JStr ''USER#META'')])) \<rparr>)"
proof -
  let ?c1 = "(client_with active_user)\<lparr> sent := [GetCommand ''t'' user_key] \<rparr>"
  let ?current = "JObj [(''id'', JStr ''1''), (''name'', JStr ''Alice'')]"
  let ?validated = "JObj [(''id'', JStr ''1''), (''name'', JStr ''Bob'')]"
  let ?item = "JObj [(''id'', JStr ''1''), (''name'', JStr ''Bob''),
                     (''pk'', JStr ''USER#1''), (''sk'', JStr ''USER#META'')]"
  have h: "entity_get plain_store soft_users ''1'' (client_with active_user) = (Inr ?current, ?c1)"
    by (simp add: example_defs run_defs)
  have h1: "truthy ?current" by simp
  have h2: "entity_applyPlugins (entityConfig.plugins soft_users) BeforeUpdate [JStr ''1'', rename_bob]
     = Inr (JObj [(''name'', JStr ''Bob'')])"
    by (simp add: example_defs run_defs)
  have h3: "schema soft_users (spread [?current, JObj [(''name'', JStr ''Bob'')]]) = Inr ?validated"
    by (simp add: example_defs run_defs)
  have h4: "fromId (keys soft_users) ''1'' = Inr user_key"
    by (simp add: example_defs run_defs)
  have h5: "dodoConfig.plugins plain_store = []"
    by (simp add: plain_store_def)
  have m: "spread [?validated, key_obj user_key] = ?item"
    by (simp add: example_defs run_defs)
  have t: "table plain_store = ''t''" by (simp add: plain_store_def)
  show ?thesis
    using entity_update_steps [OF h, of rename_bob "[(''name'', JStr ''Bob'')]" ?validated user_key]
      h h1 h2 h3 h4 h5 m t
    by simp
qed

text \<open>
  The claim as the specification states it fails here. Updating the name of user 1
  through the source sends one get and one put, while the update of the specification,
  written through the facade's \<open>update\<close>, sends a second get. With a schema that strips
  unknown keys the two also leave different records in the table: the source's put
  replaces the record, so the stripped field \<open>legacy\<close> is gone, while the facade's
  \<open>update\<close> would merge over the record it fetched again and keep it.
\<close>

theorem entity_update_not_as_specified:
  "entity_update plain_store soft_users ''1'' rename_bob (client_with active_user)
   \<noteq> entity_update_as_specified plain_store soft_users ''1'' rename_bob (client_with active_user)
   \<and> content (snd (entity_update plain_store strict_users ''1'' rename_bob
                    (client_with legacy_user))) ''t'' user_key
     = Some (JObj [(''id'', JStr ''1''), (''name'', JStr ''Bob''),
                   (''pk'', JStr ''USER#1''), (''sk'', JStr ''USER#META'')])
   \<and> content (snd (entity_update_as_specified plain_store strict_users ''1'' rename_bob
                    (client_with legacy_user))) ''t'' user_key
     = Some (JObj [(''pk'', JStr ''USER#1''), (''sk'', JStr ''USER#META''),
                   (''id'', JStr ''1''), (''name'', JStr ''Bob''), (''legacy'', JBool True)])"
proof -
  have a: "length (sent (snd (entity_update plain_store soft_users ''1'' rename_bob
             (client_with active_user)))) = 2"
    by (simp add: example_defs run_defs)
  have b: "length (sent (snd (entity_update_as_specified plain_store soft_users ''1'' rename_bob
             (client_with active_user)))) = 3"
    by (simp add: example_defs run_defs)
  have ne: "entity_update plain_store soft_users ''1'' rename_bob (client_with active_user)
   \<noteq> entity_update_as_specified plain_store soft_users ''1'' rename_bob (client_with active_user)"
    using a b by auto
  have c: "content (snd (entity_update plain_store strict_users ''1'' rename_bob
                    (client_with legacy_user))) ''t'' user_key
     = Some (JObj [(''id'', JStr ''1''), (''name'', JStr ''Bob''),
                   (''pk'', JStr ''USER#1''), (''sk'', JStr ''USER#META'')])"
    by (simp add: example_defs run_defs)
  have d: "content (snd (entity_update_as_specified plain_store strict_users ''1'' rename_bob
                    (client_with legacy_user))) ''t'' user_key
     = Some (JObj [(''pk'', JStr ''USER#1''), (''sk'', JStr ''USER#META''),
                   (''id'', JStr ''1''), (''name'', JStr ''Bob''), (''legacy'', JBool True)])"
    by (simp add: example_defs run_defs)
  show ?thesis
    using ne c d by simp
qed

text \<open>
  The running value of the before-update pipeline starts as the identifier, the first
  argument of the call. With no before-update hook the pipeline therefore returns the
  identifier, and what is merged over the current value are the indexed characters of the
  identifier, not the updates: renaming user 1 leaves the name as it was.
\<close>

lemma entity_update_without_hooks:
  "entity_applyPlugins [] BeforeUpdate [JStr i, updates] = Inr (JStr i)"
  "\<exists>ps. fst (entity_update plain_store plain_users ''1'' rename_bob (client_with active_user))
           = Inr (JObj ps)
        \<and> map_of ps ''name'' = Some (JStr ''Alice'') \<and> map_of ps ''0'' = Some (JStr ''1'')"
  by (simp_all add: example_defs run_defs index_props_def show_nat.simps digit_char_def)

section \<open>Properties of the filter expression compiler\<close>

text \<open>
  Claim C4, as amended. The compiler fails, with an invalid-expression error, exactly on
  the predicate trees whose traversal reaches a leaf with no recognized operator or a node
  with no recognized shape, and returns an expression on all others. An AND or OR
  combinator with an empty child list is not rejected: it compiles to the empty group
  \<open>()\<close>.
\<close>

theorem buildFilterExpression_failures:
  "(\<forall>f. ((\<exists>msg. buildFilterExpression f = Inl (InvalidExpression msg)) = unrecognized f)
        \<and> ((\<exists>r. buildFilterExpression f = Inr r) = (\<not> unrecognized f)))
   \<and> buildFilterExpression empty_and = Inr \<lparr> names = [], values' = [], expr = ''()'' \<rparr>
   \<and> buildFilterExpression empty_or = Inr \<lparr> names = [], values' = [], expr = ''()'' \<rparr>"
proof -
  let ?st0 = "\<lparr> names = [], values' = [], valueCounter = 0, nameCounter = 0 \<rparr>"
  have fails: "(\<exists>msg. buildFilterExpression f = Inl (InvalidExpression msg)) = unrecognized f" for f
  proof (cases "buildExpr f ?st0")
    case (Inl err)
    then show ?thesis
      using buildExpr_fails(1) [of f ?st0] buildExpr_error_kind(1) [OF Inl]
      by (auto simp: buildFilterExpression_def)
  next
    case (Inr p)
    then show ?thesis
      using buildExpr_fails(1) [of f ?st0]
      by (auto simp: buildFilterExpression_def split: prod.splits)
  qed
  have succeeds: "(\<exists>r. buildFilterExpression f = Inr r) = (\<not> unrecognized f)" for f
  proof (cases "buildExpr f ?st0")
    case (Inl err)
    then show ?thesis
      using buildExpr_fails(1) [of f ?st0] by (auto simp: buildFilterExpression_def)
  next
    case (Inr p)
    then show ?thesis
      using buildExpr_fails(1) [of f ?st0]
      by (auto simp: buildFilterExpression_def split: prod.splits)
  qed
  have e1: "buildFilterExpression empty_and = Inr \<lparr> names = [], values' = [], expr = ''()'' \<rparr>"
    by (simp add: buildFilterExpression_def empty_and_def)
  have e2: "buildFilterExpression empty_or = Inr \<lparr> names = [], values' = [], expr = ''()'' \<rparr>"
    by (simp add: buildFilterExpression_def empty_or_def)
  show ?thesis
    using fails succeeds e1 e2 by blast
qed

theorem buildFilterExpression_failures_witness:
  "(\<exists>msg. buildFilterExpression (FilterNode (Some ''age'') None None None None None None None None)
            = Inl (InvalidExpression msg))
   \<and> (\<exists>msg. buildFilterExpression
              (FilterNode None None None None None None
                 (Some [role_admin, FilterNode None None None None None None None None None]) None None)
            = Inl (InvalidExpression msg))
   \<and> (\<exists>r. buildFilterExpression admin_and_active = Inr r)"
proof -
  note t = buildFilterExpression_failures [THEN conjunct1, rule_format]
  have "unrecognized (FilterNode (Some ''age'') None None None None None None None None)"
    by simp
  moreover have "unrecognized (FilterNode None None None None None None
                 (Some [role_admin, FilterNode None None None None None None None None None]) None None)"
    by (simp add: role_admin_def)
  moreover have "\<not> unrecognized admin_and_active"
    by (simp add: admin_and_active_def role_admin_def status_active_def)
  ultimately show ?thesis
    using t by blast
qed

text \<open>
  The claim as the specification states it fails on the empty AND: the compiler does not
  fail, it returns the empty group.
\<close>

theorem empty_combinator_compiles:
  "buildFilterExpression empty_and = Inr \<lparr> names = [], values' = [], expr = ''()'' \<rparr>
   \<and> \<not> isl (buildFilterExpression empty_and)"
  by (simp add: buildFilterExpression_def empty_and_def)



section \<open>Properties of the encryption plugin\<close>




text \<open>
  A listed name that the record lacks and that \<open>Object.prototype\<close> defines as a method
  passes the test \<open>field in encrypted\<close>. Before the put the inherited function is given
  to \<open>encrypt\<close>, which throws; after the get it is given to \<open>decrypt\<close>, which returns it,
  and it becomes an own property of the record.
\<close>

lemma encryption_inherited_name:
  "dodo_applyPlugins [encryption [''constructor'']] OnBeforePut (JObj [(''a'', JNum 1)])
     = Inl (TypeError ''The first argument must be of type string or an instance of Buffer, ArrayBuffer, or Array or an Array-like Object. Received undefined'')"
  "dodo_applyPlugins [encryption [''constructor'']] OnAfterGet (JObj [(''a'', JNum 1)])
     = Inr (JObj [(''a'', JNum 1), (''constructor'', JFun ''Object'')])"
  by (simp_all add: encryption_def spread_def assign_def has_property_def read_property_def
      write_property_def object_prototype_methods_def encrypt_def decrypt_def from_base64_def)

end
